theory Spec2Isabelle
  imports Complex_Main
begin

section \<open>Data model\<close>

text \<open>
  The chat engine of the repository works on three database tables: \<open>Chat\<close> (the session),
  \<open>ChatMessage\<close> (the message log) and \<open>UserProfile\<close> (whose integer field
  \<open>wallet_minutes\<close> is the requester's ledger). The model classes live in \<open>models.py\<close>,
  which is not part of the sources; the records below hold exactly the fields that the
  functions of \<open>billing.py\<close>, \<open>consumers.py\<close>, \<open>views.py\<close> and
  \<open>process_chat_billing.py\<close> read and write.

  Time stamps are Python \<open>datetime\<close> values; they are modelled as integers counting
  microseconds, the resolution of \<open>datetime\<close>. A nullable column is an \<open>option\<close>.
  Money is the integer number of rupees: every amount the code computes is
  \<open>Decimal(minutes) * Decimal('1.00')\<close>, an integral value.
\<close>

type_synonym time = int
type_synonym user_id = nat
type_synonym chat_id = nat

definition seconds :: "int \<Rightarrow> time" where
  "seconds n = n * 1000000"

definition minutes :: "int \<Rightarrow> time" where
  "minutes n = n * 60000000"

definition hours :: "int \<Rightarrow> time" where
  "hours n = n * 3600000000"

datatype chat_status = queued | active | inactive | completed | cancelled

record chat =
  user :: "user_id option"
  counsellor :: "user_id option"
  status :: chat_status
  created_at :: "time option"
  started_at :: "time option"
  ended_at :: "time option"
  last_user_activity :: "time option"
  billed_amount :: int
  duration_minutes :: int
  is_billed :: bool
  billing_processed_at :: "time option"

record chat_message =
  msg_id :: nat
  msg_chat :: chat_id
  sender :: user_id
  msg_text :: string
  client_message_id :: "string option"
  msg_created_at :: time

text \<open>
  The database: the \<open>Chat\<close> rows by primary key, the \<open>wallet_minutes\<close> of the
  \<open>UserProfile\<close> of each user (\<open>None\<close>: the user has no profile row), the
  \<open>ChatMessage\<close> rows in insertion order, and the users that have a counsellor profile,
  in the order in which \<open>User.objects.filter(counsellorprofile__isnull=False)\<close> lists them.
\<close>

record db =
  chats :: "chat_id \<Rightarrow> chat option"
  profiles :: "user_id \<Rightarrow> int option"
  messages :: "chat_message list"
  counsellor_users :: "user_id list"

definition put_chat :: "chat_id \<Rightarrow> chat \<Rightarrow> db \<Rightarrow> db" where
  "put_chat cid c d = d\<lparr>chats := (chats d)(cid \<mapsto> c)\<rparr>"

text \<open>\<open>Chat.objects.filter(id=cid).update(...)\<close>: rewrites the row when it exists.\<close>

definition update_chat :: "chat_id \<Rightarrow> (chat \<Rightarrow> chat) \<Rightarrow> db \<Rightarrow> db" where
  "update_chat cid f d =
     (case chats d cid of None \<Rightarrow> d | Some row \<Rightarrow> put_chat cid (f row) d)"

section \<open>Billing utilities (\<open>api/utils/billing.py\<close>)\<close>

text \<open>
  \<open>int(ceil(duration_seconds / 60))\<close> on a duration of \<open>d\<close> microseconds. The source
  computes in floating point; the model computes the exact ceiling.
\<close>

definition ceil_minutes :: "int \<Rightarrow> int" where
  "ceil_minutes d = - ((- d) div 60000000)"

definition CHAT_RATE_PER_MINUTE :: int where
  "CHAT_RATE_PER_MINUTE = 1"

text \<open>
  \<open>calculate_chat_duration_minutes\<close>. The first argument is the value of
  \<open>timezone.now()\<close>. The guard \<open>end_time <= chat.started_at\<close> returns before the
  minimum-of-one rule is reached.
\<close>

definition calculate_chat_duration_minutes :: "time \<Rightarrow> chat \<Rightarrow> int" where
  "calculate_chat_duration_minutes now c =
     (case started_at c of
        None \<Rightarrow> 0
      | Some s \<Rightarrow>
          let end_time = (case ended_at c of Some e \<Rightarrow> e | None \<Rightarrow> now) in
          if end_time \<le> s then 0
          else
            let rounded_up = ceil_minutes (end_time - s) in
            if rounded_up = 0 \<and> ended_at c \<noteq> None \<and> started_at c \<noteq> None then 1
            else rounded_up)"

definition calculate_chat_billing :: "time \<Rightarrow> chat \<Rightarrow> int" where
  "calculate_chat_billing now c = calculate_chat_duration_minutes now c * CHAT_RATE_PER_MINUTE"

text \<open>
  \<open>deduct_chat_billing\<close>: returns the success flag and the database. A missing profile
  is created with a balance of 0 inside the transaction, and the function then returns
  \<open>False\<close> from inside the \<open>atomic\<close> block, which commits the new row.
\<close>

definition deduct_chat_billing :: "chat \<Rightarrow> int \<Rightarrow> db \<Rightarrow> bool \<times> db" where
  "deduct_chat_billing c billing_amount d =
     (case user c of
        None \<Rightarrow> (False, d)
      | Some u \<Rightarrow>
          if billing_amount \<le> 0 then (True, d)
          else
            (case profiles d u of
               None \<Rightarrow> (False, d\<lparr>profiles := (profiles d)(u \<mapsto> 0)\<rparr>)
             | Some wallet_minutes \<Rightarrow>
                 if wallet_minutes < billing_amount then (False, d)
                 else (True, d\<lparr>profiles := (profiles d)(u \<mapsto> wallet_minutes - billing_amount)\<rparr>)))"

text \<open>
  \<open>calculate_and_deduct_chat_billing\<close> (settlement). The chat object is refreshed from
  the database first, so the function is modelled on the primary key. All calls of
  \<open>timezone.now()\<close> within one run are taken at the same instant \<open>now\<close>.
\<close>

definition calculate_and_deduct_chat_billing :: "time \<Rightarrow> chat_id \<Rightarrow> db \<Rightarrow> bool \<times> db" where
  "calculate_and_deduct_chat_billing now cid d =
     (case chats d cid of
        None \<Rightarrow> (False, d)
      | Some c \<Rightarrow>
          if is_billed c then (True, d)
          else if started_at c = None then
            (True, update_chat cid
               (\<lambda>row. row\<lparr>is_billed := True, billing_processed_at := Some now,
                             duration_minutes := 0, billed_amount := 0\<rparr>) d)
          else
            let d1 = (if ended_at c = None
                      then update_chat cid (\<lambda>row. row\<lparr>ended_at := Some now\<rparr>) d else d);
                c1 = (if ended_at c = None then c\<lparr>ended_at := Some now\<rparr> else c);
                duration = calculate_chat_duration_minutes now c1;
                billing_amount = calculate_chat_billing now c1;
                (deduction_success, d2) =
                   (if billing_amount > 0 then deduct_chat_billing c1 billing_amount d1
                    else (True, d1))
            in if deduction_success \<or> billing_amount = 0 then
                 (True, update_chat cid
                    (\<lambda>row. row\<lparr>duration_minutes := duration, billed_amount := billing_amount,
                                  is_billed := True, billing_processed_at := Some now\<rparr>) d2)
               else
                 (False, update_chat cid
                    (\<lambda>row. row\<lparr>duration_minutes := duration,
                                  billed_amount := billing_amount\<rparr>) d2))"

section \<open>Persisting a chat (\<open>Chat.save\<close>)\<close>

text \<open>
  The columns of \<open>Chat\<close> that the callers name in \<open>update_fields\<close>. The time stamp
  \<open>updated_at\<close>, which no function reads, is left out.
\<close>

datatype chat_field =
  F_status | F_ended_at | F_started_at | F_last_user_activity | F_counsellor
  | F_billed_amount | F_duration_minutes

fun copy_field :: "chat \<Rightarrow> chat_field \<Rightarrow> chat \<Rightarrow> chat" where
  "copy_field obj F_status row = row\<lparr>status := status obj\<rparr>"
| "copy_field obj F_ended_at row = row\<lparr>ended_at := ended_at obj\<rparr>"
| "copy_field obj F_started_at row = row\<lparr>started_at := started_at obj\<rparr>"
| "copy_field obj F_last_user_activity row = row\<lparr>last_user_activity := last_user_activity obj\<rparr>"
| "copy_field obj F_counsellor row = row\<lparr>counsellor := counsellor obj\<rparr>"
| "copy_field obj F_billed_amount row = row\<lparr>billed_amount := billed_amount obj\<rparr>"
| "copy_field obj F_duration_minutes row = row\<lparr>duration_minutes := duration_minutes obj\<rparr>"

definition write_fields :: "chat_field list \<Rightarrow> chat \<Rightarrow> chat \<Rightarrow> chat" where
  "write_fields fs obj row = fold (copy_field obj) fs row"

text \<open>
  Modelled from the spec: \<open>Chat.save()\<close> is overridden in \<open>models.py\<close>, which is not
  among the sources. The callers rely on it (\<open>views.py\<close>: "this should trigger billing in
  Chat.save()"; \<open>billing.py\<close>: "called automatically when a chat ends"), and the spec
  (4.1, step 5c and \<open>end_session\<close>) says that a session set to \<open>completed\<close> is persisted
  and that settlement is then invoked. So: the object is written to its row (all columns,
  or the named \<open>update_fields\<close> only), and when the saved object is \<open>completed\<close>
  settlement runs on the row. The Python object that is being saved keeps its values.
\<close>

definition Chat_save :: "time \<Rightarrow> chat_id \<Rightarrow> chat_field list option \<Rightarrow> chat \<Rightarrow> db \<Rightarrow> db" where
  "Chat_save now cid update_fields obj d =
     (let d1 = (case update_fields of
                  None \<Rightarrow> put_chat cid obj d
                | Some fs \<Rightarrow> update_chat cid (write_fields fs obj) d)
      in if status obj = completed then snd (calculate_and_deduct_chat_billing now cid d1)
         else d1)"

section \<open>Periodic accrual (\<open>management/commands/process_chat_billing.py\<close>)\<close>

datatype accrual_outcome =
  Below_minimum | Nothing_due | Check_only int | Deducted int
  | Insufficient_balance | Profile_not_found | Processing_error

text \<open>
  The body of the loop of \<open>Command.handle\<close> for one chat object of the query set.
  \<open>chat.user.username\<close> raises on a chat without a user; the loop catches it.
\<close>

definition process_active_chat ::
  "bool \<Rightarrow> int \<Rightarrow> time \<Rightarrow> chat_id \<Rightarrow> chat \<Rightarrow> db \<Rightarrow> accrual_outcome \<times> db" where
  "process_active_chat check_only min_duration now cid c d =
     (let duration = calculate_chat_duration_minutes now c in
      if duration < min_duration then (Below_minimum, d)
      else
        let current_billing = calculate_chat_billing now c;
            already_billed = billed_amount c;
            amount_to_deduct = current_billing - already_billed
        in if amount_to_deduct > 0 then
             (case user c of
                None \<Rightarrow> (Processing_error, d)
              | Some u \<Rightarrow>
                  if check_only then (Check_only amount_to_deduct, d)
                  else
                    (case profiles d u of
                       None \<Rightarrow> (Profile_not_found, d)
                     | Some wallet_minutes \<Rightarrow>
                         if wallet_minutes \<ge> amount_to_deduct then
                           (Deducted amount_to_deduct,
                            Chat_save now cid (Some [F_billed_amount, F_duration_minutes])
                              (c\<lparr>billed_amount := current_billing, duration_minutes := duration\<rparr>)
                              (d\<lparr>profiles := (profiles d)(u \<mapsto> wallet_minutes - amount_to_deduct)\<rparr>))
                         else (Insufficient_balance, d)))
           else (Nothing_due, d))"

text \<open>
  The query set \<open>Chat.objects.filter(status=ACTIVE, started_at__isnull=False)\<close>, read once
  when the loop starts; \<open>ids\<close> are the primary keys of the table in the order of the query.
\<close>

definition active_chats :: "chat_id list \<Rightarrow> db \<Rightarrow> (chat_id \<times> chat) list" where
  "active_chats ids d =
     List.map_filter
       (\<lambda>i. case chats d i of
               None \<Rightarrow> None
             | Some c \<Rightarrow> if status c = active \<and> started_at c \<noteq> None then Some (i, c) else None)
       ids"

fun process_chats ::
  "bool \<Rightarrow> int \<Rightarrow> time \<Rightarrow> (chat_id \<times> chat) list \<Rightarrow> db \<Rightarrow> accrual_outcome list \<times> db" where
  "process_chats check_only min_duration now [] d = ([], d)"
| "process_chats check_only min_duration now ((cid, c) # rest) d =
     (let (outcome, d1) = process_active_chat check_only min_duration now cid c d;
          (outcomes, d2) = process_chats check_only min_duration now rest d1
      in (outcome # outcomes, d2))"

definition handle ::
  "bool \<Rightarrow> int \<Rightarrow> time \<Rightarrow> chat_id list \<Rightarrow> db \<Rightarrow> accrual_outcome list \<times> db" where
  "handle check_only min_duration now ids d =
     process_chats check_only min_duration now (active_chats ids d) d"

section \<open>Saving a message (\<open>ChatConsumer.save_message\<close>, \<open>api/consumers.py\<close>)\<close>

text \<open>Python's truth value of \<open>client_message_id\<close>: \<open>None\<close> and the empty string are false.\<close>

definition truthy :: "string option \<Rightarrow> bool" where
  "truthy s = (case s of None \<Rightarrow> False | Some k \<Rightarrow> k \<noteq> [])"

definition find_by_client_id ::
  "chat_id \<Rightarrow> user_id \<Rightarrow> string option \<Rightarrow> db \<Rightarrow> chat_message option" where
  "find_by_client_id cid me cmid d =
     find (\<lambda>m. msg_chat m = cid \<and> sender m = me \<and> client_message_id m = cmid) (messages d)"

definition find_recent_duplicate ::
  "time \<Rightarrow> chat_id \<Rightarrow> user_id \<Rightarrow> string \<Rightarrow> db \<Rightarrow> chat_message option" where
  "find_recent_duplicate now cid me txt d =
     find (\<lambda>m. msg_chat m = cid \<and> sender m = me \<and> msg_text m = txt
                \<and> now - seconds 2 \<le> msg_created_at m) (messages d)"

text \<open>
  \<open>check_chat_wallet_balance\<close> (\<open>billing.py\<close>) is called for its log line only, but its
  \<open>get_or_create\<close> adds a missing profile.
  Modelled from the spec: the initial value of \<open>wallet_minutes\<close> is declared in
  \<open>models.py\<close>, which is not among the sources. The spec (section 6) only asks for a
  get-or-create of the balance record; \<open>deduct_chat_billing\<close> creates a missing profile
  with a balance of 0, and the same value is taken here.
\<close>

definition check_chat_wallet_balance :: "user_id \<Rightarrow> db \<Rightarrow> (bool \<times> int) \<times> db" where
  "check_chat_wallet_balance u d =
     (case profiles d u of
        None \<Rightarrow> ((False, 0), d\<lparr>profiles := (profiles d)(u \<mapsto> 0)\<rparr>)
      | Some wallet_minutes \<Rightarrow> ((1 \<le> wallet_minutes, wallet_minutes), d))"

text \<open>
  Lines 403-419: the requester returns after more than five minutes of silence. The
  arguments are \<open>previous_activity\<close> and the chat object whose \<open>last_user_activity\<close>
  has already been overwritten with \<open>now\<close>.
\<close>

definition reactivate_after_inactivity :: "time \<Rightarrow> time option \<Rightarrow> chat \<Rightarrow> chat" where
  "reactivate_after_inactivity now previous_activity c =
     (case previous_activity of
        None \<Rightarrow> c
      | Some p \<Rightarrow>
          if status c \<in> {active, inactive} \<and> p < now - minutes 5 \<and> status c = inactive
          then c\<lparr>status := active, ended_at := None\<rparr>
          else c)"

text \<open>
  Lines 421-439: the one-hour auto-disconnect. The test reads \<open>chat.last_user_activity\<close>
  of the chat object, as the source does.
\<close>

definition auto_disconnect :: "time \<Rightarrow> chat_id \<Rightarrow> chat \<Rightarrow> db \<Rightarrow> chat \<times> db" where
  "auto_disconnect now cid c d =
     (case last_user_activity c of
        None \<Rightarrow> (c, d)
      | Some lua \<Rightarrow>
          if status c = active \<and> lua < now - hours 1 then
            let c1 = c\<lparr>status := completed\<rparr>;
                c2 = (if ended_at c1 = None then c1\<lparr>ended_at := Some now\<rparr> else c1);
                c3 = (if started_at c2 = None
                      then c2\<lparr>started_at := Some (case created_at c2 of Some t \<Rightarrow> t | None \<Rightarrow> now)\<rparr>
                      else c2)
            in (c3, Chat_save now cid
                      (Some [F_status, F_ended_at, F_started_at, F_last_user_activity]) c3 d)
          else (c, d))"

text \<open>
  Lines 441-540: activation of a queued, completed, inactive or cancelled chat. The
  write to the \<open>UpcomingSession\<close> table (lines 512-535) touches no column of \<open>Chat\<close>,
  runs inside its own \<open>try\<close> and is not part of the model.
\<close>

definition activate_chat :: "time \<Rightarrow> chat_id \<Rightarrow> chat \<Rightarrow> db \<Rightarrow> chat \<times> bool \<times> db" where
  "activate_chat now cid c d =
     (let old_status = status c;
          d1 = (if old_status = queued
                then (case user c of Some u \<Rightarrow> snd (check_chat_wallet_balance u d) | None \<Rightarrow> d)
                else d);
          c1 = (if old_status = queued then
                  let a = (if counsellor c = None
                           then (case counsellor_users d1 of
                                   [] \<Rightarrow> c
                                 | available_counselor # _ \<Rightarrow> c\<lparr>counsellor := Some available_counselor\<rparr>)
                           else c)
                  in if started_at a = None then a\<lparr>started_at := Some now\<rparr> else a
                else c);
          chat_was_activated = (old_status = queued \<or> old_status \<in> {completed, inactive, cancelled});
          c2 = c1\<lparr>status := active, ended_at := None\<rparr>;
          update_fields =
            [F_status, F_ended_at, F_last_user_activity]
            @ (if old_status = queued \<and> counsellor c2 \<noteq> None then [F_counsellor] else [])
            @ (if old_status = queued \<and> started_at c2 \<noteq> None then [F_started_at] else [])
      in (c2, chat_was_activated, Chat_save now cid (Some update_fields) c2 d1))"

text \<open>
  Lines 398-540: the sender is the chat's user. Returns the chat object as it stands in
  memory, \<open>chat_was_activated\<close> and the database.
\<close>

definition user_message :: "time \<Rightarrow> chat_id \<Rightarrow> chat \<Rightarrow> db \<Rightarrow> chat \<times> bool \<times> db" where
  "user_message now cid c d =
     (let previous_activity = last_user_activity c;
          c1 = c\<lparr>last_user_activity := Some now\<rparr>;
          c2 = reactivate_after_inactivity now previous_activity c1;
          (c3, d3) = auto_disconnect now cid c2 d
      in if status c3 \<in> {queued, completed, inactive, cancelled}
         then activate_chat now cid c3 d3
         else (c3, False, d3))"

text \<open>Lines 541-569: the sender is not the chat's user (the counsellor).\<close>

definition counsellor_message :: "time \<Rightarrow> chat_id \<Rightarrow> chat \<Rightarrow> db \<Rightarrow> chat \<times> db" where
  "counsellor_message now cid c d =
     (case last_user_activity c of
        None \<Rightarrow> (c, d)
      | Some lua \<Rightarrow>
          if status c = active \<and> lua < now - minutes 5 then
            let c1 = c\<lparr>status := inactive\<rparr>;
                c2 = (if ended_at c1 = None then c1\<lparr>ended_at := Some (lua + minutes 5)\<rparr> else c1);
                c3 = (if started_at c2 = None
                      then c2\<lparr>started_at := Some (case created_at c2 of Some t \<Rightarrow> t | None \<Rightarrow> now)\<rparr>
                      else c2)
            in (c3, Chat_save now cid (Some [F_status, F_ended_at, F_started_at]) c3 d)
          else (c, d))"

datatype save_error = Chat_DoesNotExist

text \<open>
  \<open>save_message\<close>: \<open>Inr None\<close> is the source's \<open>None\<close> (a duplicate),
  \<open>Inr (Some (message, chat_was_activated))\<close> its tuple, \<open>Inl\<close> an exception, which
  rolls the transaction back. \<open>me\<close> is \<open>self.user\<close>. A new row gets the next primary key,
  taken as the number of rows plus one: rows of the log are not deleted here.
\<close>

definition save_message ::
  "time \<Rightarrow> chat_id \<Rightarrow> user_id \<Rightarrow> string \<Rightarrow> string option \<Rightarrow> db
     \<Rightarrow> (save_error + (chat_message \<times> bool) option) \<times> db" where
  "save_message now cid me txt cmid d =
     (case chats d cid of
        None \<Rightarrow> (Inl Chat_DoesNotExist, d)
      | Some c \<Rightarrow>
          if truthy cmid \<and> find_by_client_id cid me cmid d \<noteq> None then (Inr None, d)
          else if \<not> truthy cmid \<and> find_recent_duplicate now cid me txt d \<noteq> None
          then (Inr None, d)
          else
            let is_user_sender = (user c = Some me);
                (chat_was_activated, d1) =
                   (if is_user_sender
                    then (let (c', activated, d') = user_message now cid c d in (activated, d'))
                    else (False, snd (counsellor_message now cid c d)));
                message = \<lparr>msg_id = Suc (length (messages d1)), msg_chat = cid, sender = me,
                           msg_text = txt, client_message_id = cmid, msg_created_at = now\<rparr>
            in (Inr (Some (message, chat_was_activated)),
                d1\<lparr>messages := messages d1 @ [message]\<rparr>))"

section \<open>Receiving a frame (\<open>ChatConsumer.receive\<close>)\<close>

text \<open>
  What the consumer sends: an acknowledgement to the sender (status, client message id,
  message id), an error frame to the sender, a message to the chat's group, and a status
  change to the counsellor queue (chat id and the counsellor of the reloaded chat).
\<close>

datatype wire_event =
  Ack string "string option" "nat option"
  | Error_frame string
  | Group_message chat_message
  | Queue_status_change chat_id "user_id option"

text \<open>
  \<open>receive\<close>, from the decoded frame on: \<open>message_text\<close> is the frame's text after
  \<open>strip()\<close>, \<open>cmid\<close> its \<open>client_message_id\<close>. The connection has passed the access
  check of \<open>connect\<close>, so the cached chat is present.
\<close>

definition receive ::
  "time \<Rightarrow> chat_id \<Rightarrow> user_id \<Rightarrow> string \<Rightarrow> string option \<Rightarrow> db \<Rightarrow> wire_event list \<times> db" where
  "receive now cid me message_text cmid d =
     (if message_text = [] then ([], d)
      else if length message_text > 5000
      then ([Error_frame ''Message too long. Maximum 5000 characters.''], d)
      else
        (case save_message now cid me message_text cmid d of
           (Inl e, d') \<Rightarrow> ([Error_frame ''Failed to save message. Please try again.''], d')
         | (Inr None, d') \<Rightarrow> ([Ack ''duplicate'' cmid None], d')
         | (Inr (Some (message_obj, chat_was_activated)), d') \<Rightarrow>
             ((if truthy cmid then [Ack ''sent'' cmid (Some (msg_id message_obj))] else [])
              @ [Group_message message_obj]
              @ (if chat_was_activated
                 then (case chats d' cid of
                         None \<Rightarrow> []
                       | Some chat_obj \<Rightarrow> [Queue_status_change cid (counsellor chat_obj)])
                 else []),
              d')))"

section \<open>Ending a session (\<open>SessionEndView.post\<close>, \<open>api/views.py\<close>)\<close>

text \<open>
  The scheduled appointment (\<open>UpcomingSession\<close>), with the columns that \<open>post\<close> reads and
  writes; the free-text \<open>notes\<close> are left out.
\<close>

record upcoming_session =
  session_user :: "user_id option"
  session_counsellor :: "user_id option"
  session_status :: string
  actual_start_time :: "time option"
  actual_end_time :: "time option"
  is_confirmed :: bool

text \<open>
  The responses of \<open>post\<close>: \<open>ended\<close> with \<open>end_time\<close> and the billing information
  (\<open>billed_amount\<close>, \<open>duration_minutes\<close>) when there is one, \<open>already_ended\<close> with
  \<open>end_time\<close>, or an error with its HTTP status. The duration fields of the responses are
  not modelled.
\<close>

datatype end_response =
  Ended "time option" "(int \<times> int) option"
  | Already_ended time
  | Http_error nat

definition billing_info_of :: "chat_id \<Rightarrow> db \<Rightarrow> (int \<times> int) option" where
  "billing_info_of cid d =
     (case chats d cid of
        None \<Rightarrow> None
      | Some row \<Rightarrow> if is_billed row then Some (billed_amount row, duration_minutes row) else None)"

text \<open>
  Lines 1142-1229: no \<open>UpcomingSession\<close> was found and \<open>session_id\<close> is the primary key
  of a chat that the requesting user may end.
\<close>

definition end_chat_without_session :: "time \<Rightarrow> chat_id \<Rightarrow> db \<Rightarrow> end_response \<times> db" where
  "end_chat_without_session now cid d =
     (case chats d cid of
        None \<Rightarrow> (Http_error 404, d)
      | Some c \<Rightarrow>
          if counsellor c = None then (Http_error 400, d)
          else if status c \<in> {active, inactive} then
            let c1 = c\<lparr>status := completed\<rparr>;
                c2 = (if ended_at c1 = None then c1\<lparr>ended_at := Some now\<rparr> else c1);
                c3 = (if started_at c2 = None then c2\<lparr>started_at := Some now\<rparr> else c2);
                d1 = Chat_save now cid None c3 d;
                d2 = (case chats d1 cid of
                        None \<Rightarrow> d1
                      | Some row \<Rightarrow>
                          if is_billed row then d1
                          else snd (calculate_and_deduct_chat_billing now cid d1));
                end_time = (case chats d2 cid of None \<Rightarrow> None | Some row \<Rightarrow> ended_at row)
            in (Ended end_time (billing_info_of cid d2), d2)
          else (Http_error 400, d))"

text \<open>
  Lines 1343-1408: billing of the chat of the session's pair. \<open>pair_chat\<close> is the result
  of the query for the latest active or inactive chat of the session's user and counsellor.
\<close>

definition bill_pair_chat :: "time \<Rightarrow> chat_id option \<Rightarrow> db \<Rightarrow> (int \<times> int) option \<times> db" where
  "bill_pair_chat now pair_chat d =
     (case pair_chat of
        None \<Rightarrow> (None, d)
      | Some cid \<Rightarrow>
          (case chats d cid of
             None \<Rightarrow> (None, d)
           | Some c \<Rightarrow>
               if \<not> is_billed c \<and> started_at c \<noteq> None then
                 let d1 = (if status c \<noteq> completed
                           then Chat_save now cid None
                                  (c\<lparr>status := completed,
                                     ended_at := (case ended_at c of None \<Rightarrow> Some now | Some e \<Rightarrow> Some e)\<rparr>) d
                           else d);
                     d2 = (case chats d1 cid of
                             None \<Rightarrow> d1
                           | Some row \<Rightarrow>
                               if \<not> is_billed row \<and> started_at row \<noteq> None \<and> ended_at row \<noteq> None
                               then snd (calculate_and_deduct_chat_billing now cid d1)
                               else d1)
                 in (billing_info_of cid d2, d2)
               else (None, d)))"

text \<open>Lines 1310-1428: an \<open>UpcomingSession\<close> was found.\<close>

definition end_upcoming_session ::
  "time \<Rightarrow> upcoming_session \<Rightarrow> chat_id option \<Rightarrow> db
     \<Rightarrow> end_response \<times> upcoming_session \<times> db" where
  "end_upcoming_session now session pair_chat d =
     (case (if session_status session = ''completed'' then actual_end_time session else None) of
        Some t \<Rightarrow> (Already_ended t, session, d)
      | None \<Rightarrow>
          let s1 = session\<lparr>actual_end_time := Some now, session_status := ''completed'',
                           is_confirmed := False\<rparr>;
              s2 = (if actual_start_time s1 = None then s1\<lparr>actual_start_time := Some now\<rparr> else s1);
              (billing_info, d1) =
                 (if session_user s2 \<noteq> None \<and> session_counsellor s2 \<noteq> None
                  then bill_pair_chat now pair_chat d else (None, d))
          in (Ended (actual_end_time s2) billing_info, s2, d1))"

text \<open>
  \<open>post\<close> after its look-ups (lines 1062-1139): \<open>session\<close> is the \<open>UpcomingSession\<close>
  found by id or for the chat's pair, \<open>chat\<close> the chat found by id when the requesting
  user is its user or its counsellor. The answers of the look-ups themselves (HTTP 403
  for a user who is neither, lines 1095-1104) are not part of this function.
\<close>

definition SessionEndView_post ::
  "time \<Rightarrow> upcoming_session option \<Rightarrow> chat_id option \<Rightarrow> chat_id option \<Rightarrow> db
     \<Rightarrow> end_response \<times> upcoming_session option \<times> db" where
  "SessionEndView_post now session chat pair_chat d =
     (case session of
        None \<Rightarrow>
          (case chat of
             None \<Rightarrow> (Http_error 404, None, d)
           | Some cid \<Rightarrow> (let (r, d') = end_chat_without_session now cid d in (r, None, d')))
      | Some s \<Rightarrow>
          (let (r, s', d') = end_upcoming_session now s pair_chat d in (r, Some s', d')))"

section \<open>Notions used in the statements\<close>

text \<open>
  The instant up to which a chat is measured: \<open>ended_at\<close>, or the current time while
  \<open>ended_at\<close> is unset.
\<close>

definition chat_end_time :: "time \<Rightarrow> chat \<Rightarrow> time" where
  "chat_end_time now c = (case ended_at c of Some e \<Rightarrow> e | None \<Rightarrow> now)"

text \<open>
  The elapsed minutes as the specification words them: 0 without \<open>started_at\<close>,
  otherwise the ceiling of the elapsed seconds over 60, and at least 1 once both
  \<open>started_at\<close> and \<open>ended_at\<close> are set. This definition follows the specification, not
  the source; it is compared with \<open>calculate_chat_duration_minutes\<close> below.
\<close>

definition elapsed_minutes_claimed :: "time \<Rightarrow> chat \<Rightarrow> int" where
  "elapsed_minutes_claimed now c =
     (case started_at c of
        None \<Rightarrow> 0
      | Some s \<Rightarrow>
          let m = \<lceil>((of_int (chat_end_time now c - s) :: real) / 1000000) / 60\<rceil>
          in if ended_at c \<noteq> None then max 1 m else m)"

text \<open>A wallet that is not overdrawn (a user without a profile row has no wallet).\<close>

definition balance_ok :: "db \<Rightarrow> user_id \<Rightarrow> bool" where
  "balance_ok d u = (case profiles d u of None \<Rightarrow> True | Some w \<Rightarrow> 0 \<le> w)"

text \<open>
  Concrete data for the examples: user 7 chats with counsellor 9 in chat 1, which
  started at time 0.
\<close>

definition example_chat :: chat where
  "example_chat =
     \<lparr>user = Some 7, counsellor = Some 9, status = active, created_at = Some 0,
      started_at = Some 0, ended_at = None, last_user_activity = Some 0,
      billed_amount = 0, duration_minutes = 0, is_billed = False,
      billing_processed_at = None\<rparr>"

definition example_db :: "chat \<Rightarrow> int \<Rightarrow> db" where
  "example_db c wallet =
     \<lparr>chats = Map.empty(1 \<mapsto> c), profiles = Map.empty(7 \<mapsto> wallet), messages = [],
      counsellor_users = [9]\<rparr>"

text \<open>
  A scenario for settlement after accrual. The periodic command runs at minute 5 on the
  running example chat, whose user holds 15; \<open>accrued_db\<close> is the database it leaves.
  The chat is then closed at minute 7: \<open>closed_db\<close>.
\<close>

definition accrued_db :: db where
  "accrued_db = snd (handle False 1 (minutes 5) [1] (example_db example_chat 15))"

definition closed_db :: db where
  "closed_db =
     update_chat 1 (\<lambda>row. row\<lparr>status := completed, ended_at := Some (minutes 7)\<rparr>) accrued_db"

text \<open>
  The idempotency key of a message, and the invariant of the message log: no two
  messages that carry a client message id share their chat, sender and client message id.
\<close>

definition msg_key :: "chat_message \<Rightarrow> chat_id \<times> user_id \<times> string option" where
  "msg_key m = (msg_chat m, sender m, client_message_id m)"

definition unique_client_ids :: "db \<Rightarrow> bool" where
  "unique_client_ids d =
     distinct (map msg_key (filter (\<lambda>m. truthy (client_message_id m)) (messages d)))"

text \<open>
  Concrete data for the message examples: the message that user 7 sent first, the
  message \<open>hello\<close> as it is stored at time \<open>now\<close>, the example chat with a user last seen
  at time 0, and the same chat after it was marked inactive at minute 5.
\<close>

definition first_message :: chat_message where
  "first_message =
     \<lparr>msg_id = 1, msg_chat = 1, sender = 7, msg_text = ''hello'',
      client_message_id = Some ''c1'', msg_created_at = 0\<rparr>"

definition hello_message :: "time \<Rightarrow> chat_message" where
  "hello_message now =
     \<lparr>msg_id = 1, msg_chat = 1, sender = 7, msg_text = ''hello'',
      client_message_id = Some ''c1'', msg_created_at = now\<rparr>"

definition stale_active_db :: db where
  "stale_active_db = example_db example_chat 100"

definition stale_inactive_chat :: chat where
  "stale_inactive_chat = example_chat\<lparr>status := inactive, ended_at := Some (minutes 5)\<rparr>"

text \<open>
  Concrete data for ending a session: the example chat closed at minute 3, the same chat
  after settlement, a scheduled appointment of user 7 with counsellor 9, and that
  appointment after it was ended at minute 3.
\<close>

definition ended_chat :: chat where
  "ended_chat =
     example_chat\<lparr>status := completed, ended_at := Some (minutes 3)\<rparr>"

definition billed_chat :: chat where
  "billed_chat =
     ended_chat\<lparr>duration_minutes := 3, billed_amount := 3, is_billed := True,
                billing_processed_at := Some (minutes 3)\<rparr>"

definition example_session :: upcoming_session where
  "example_session =
     \<lparr>session_user = Some 7, session_counsellor = Some 9, session_status = ''in_progress'',
      actual_start_time = Some 0, actual_end_time = None, is_confirmed = True\<rparr>"

definition ended_session :: upcoming_session where
  "ended_session =
     example_session\<lparr>session_status := ''completed'', actual_end_time := Some (minutes 3)\<rparr>"

text \<open>
  Further concrete data: a chat that never started but carries stale billing figures,
  and two messages of user 7 in chat 1 whose client message id is the empty string.
\<close>

definition never_started_chat :: chat where
  "never_started_chat =
     example_chat\<lparr>started_at := None, status := completed, billed_amount := 4,
                  duration_minutes := 4\<rparr>"

definition empty_id_message :: chat_message where
  "empty_id_message =
     \<lparr>msg_id = 1, msg_chat = 1, sender = 7, msg_text = ''hello'',
      client_message_id = Some [], msg_created_at = 0\<rparr>"

definition second_empty_id_message :: chat_message where
  "second_empty_id_message =
     \<lparr>msg_id = 2, msg_chat = 1, sender = 7, msg_text = ''again'',
      client_message_id = Some [], msg_created_at = seconds 9\<rparr>"

section \<open>Properties of the billing utilities\<close>

lemma ceil_minutes_ceiling:
  "ceil_minutes d = \<lceil>((of_int d :: real) / 1000000) / 60\<rceil>"
proof -
  have "((of_int d :: real) / 1000000) / 60 = of_int d / of_int 60000000"
    by simp
  then show ?thesis
    unfolding ceil_minutes_def by (simp only: ceiling_divide_eq_div)
qed

lemma ceil_minutes_pos: "0 < d \<Longrightarrow> 1 \<le> ceil_minutes d"
  unfolding ceil_minutes_def by linarith

lemma chats_put_chat [simp]: "chats (put_chat cid c d) = (chats d)(cid \<mapsto> c)"
  by (simp add: put_chat_def)

lemma profiles_put_chat [simp]: "profiles (put_chat cid c d) = profiles d"
  by (simp add: put_chat_def)

lemma messages_put_chat [simp]: "messages (put_chat cid c d) = messages d"
  by (simp add: put_chat_def)

lemma counsellor_users_put_chat [simp]: "counsellor_users (put_chat cid c d) = counsellor_users d"
  by (simp add: put_chat_def)

lemma profiles_update_chat [simp]: "profiles (update_chat cid f d) = profiles d"
  by (simp add: update_chat_def split: option.splits)

lemma messages_update_chat [simp]: "messages (update_chat cid f d) = messages d"
  by (simp add: update_chat_def split: option.splits)

lemma counsellor_users_update_chat [simp]:
  "counsellor_users (update_chat cid f d) = counsellor_users d"
  by (simp add: update_chat_def split: option.splits)

lemma update_chat_Some [simp]:
  "chats d cid = Some c \<Longrightarrow> update_chat cid f d = put_chat cid (f c) d"
  by (simp add: update_chat_def)

lemma update_chat_None [simp]: "chats d cid = None \<Longrightarrow> update_chat cid f d = d"
  by (simp add: update_chat_def)

lemma ceil_minutes_zero: "ceil_minutes d = 0 \<Longrightarrow> d \<le> 0"
  using ceil_minutes_pos[of d] by linarith

lemma duration_ended_now:
  "ended_at c = None \<Longrightarrow>
     calculate_chat_duration_minutes now (c\<lparr>ended_at := Some now\<rparr>)
       = calculate_chat_duration_minutes now c"
  by (cases "started_at c")
     (auto simp: calculate_chat_duration_minutes_def Let_def dest: ceil_minutes_zero)

lemma billing_ended_now:
  "ended_at c = None \<Longrightarrow>
     calculate_chat_billing now (c\<lparr>ended_at := Some now\<rparr>) = calculate_chat_billing now c"
  by (simp add: calculate_chat_billing_def duration_ended_now)

lemma balance_ok_profiles: "profiles e = profiles d \<Longrightarrow> balance_ok e u = balance_ok d u"
  by (simp add: balance_ok_def)

lemma balance_ok_update_chat [simp]: "balance_ok (update_chat cid f d) u = balance_ok d u"
  by (simp add: balance_ok_def)

lemma balance_ok_put_chat [simp]: "balance_ok (put_chat cid c d) u = balance_ok d u"
  by (simp add: balance_ok_def)

lemma deduct_cases:
  "deduct_chat_billing c amount d =
     (case user c of
        None \<Rightarrow> (False, d)
      | Some u \<Rightarrow>
          if amount \<le> 0 then (True, d)
          else (case profiles d u of
                  None \<Rightarrow> (False, d\<lparr>profiles := (profiles d)(u \<mapsto> 0)\<rparr>)
                | Some w \<Rightarrow> if w < amount then (False, d)
                            else (True, d\<lparr>profiles := (profiles d)(u \<mapsto> w - amount)\<rparr>)))"
  by (simp add: deduct_chat_billing_def)

lemma deduct_balance_ok:
  "balance_ok d u \<Longrightarrow> balance_ok (snd (deduct_chat_billing c amount d)) u"
  by (auto simp: deduct_chat_billing_def balance_ok_def split: option.splits)

lemma deduct_chats [simp]: "chats (snd (deduct_chat_billing c amount d)) = chats d"
  by (auto simp: deduct_chat_billing_def split: option.splits)

lemma settle_balance_ok:
  "balance_ok d u \<Longrightarrow> balance_ok (snd (calculate_and_deduct_chat_billing now cid d)) u"
  unfolding calculate_and_deduct_chat_billing_def
  by (simp add: Let_def case_prod_beta deduct_balance_ok split: option.split)

lemma settle_messages [simp]:
  "messages (snd (calculate_and_deduct_chat_billing now cid d)) = messages d"
  unfolding calculate_and_deduct_chat_billing_def
  by (simp add: Let_def case_prod_beta deduct_chat_billing_def split: option.split)


lemma duration_started_none:
  "started_at c = None \<Longrightarrow> calculate_chat_duration_minutes now c = 0"
  by (simp add: calculate_chat_duration_minutes_def)

lemma duration_not_after:
  "started_at c = Some s \<Longrightarrow> chat_end_time now c \<le> s \<Longrightarrow>
     calculate_chat_duration_minutes now c = 0"
  by (simp add: calculate_chat_duration_minutes_def chat_end_time_def)

lemma duration_after:
  assumes "started_at c = Some s" and "s < chat_end_time now c"
  shows "calculate_chat_duration_minutes now c = ceil_minutes (chat_end_time now c - s)"
proof -
  have "1 \<le> ceil_minutes (chat_end_time now c - s)"
    using assms(2) by (intro ceil_minutes_pos) simp
  then show ?thesis
    using assms by (simp add: calculate_chat_duration_minutes_def chat_end_time_def Let_def)
qed

lemma ceil_minutes_half_minute: "ceil_minutes (seconds 30) = 1"
  by (simp add: ceil_minutes_def seconds_def)

text \<open>
  Claim C4, as amended. \<open>calculate_chat_duration_minutes\<close> returns 0 when \<open>started_at\<close>
  is unset, and 0 when the end of the measured window (\<open>ended_at\<close>, or now while it is
  unset) lies before \<open>started_at\<close>. When the end lies after \<open>started_at\<close> it returns the
  ceiling of the elapsed seconds divided by 60, which is then at least 1 and agrees with
  the specification's wording. A chat with \<open>started_at = T\<close> and
  \<open>ended_at = T + 30s\<close> has 1 elapsed minute and owes 1 at the rate of 1 per minute.
\<close>

theorem C4_duration_minutes:
  "(started_at c = None \<longrightarrow> calculate_chat_duration_minutes now c = 0)
   \<and> (\<forall>s. started_at c = Some s \<and> chat_end_time now c < s
          \<longrightarrow> calculate_chat_duration_minutes now c = 0)
   \<and> (\<forall>s. started_at c = Some s \<and> s < chat_end_time now c
          \<longrightarrow> calculate_chat_duration_minutes now c
                = \<lceil>((of_int (chat_end_time now c - s) :: real) / 1000000) / 60\<rceil>
            \<and> 1 \<le> calculate_chat_duration_minutes now c
            \<and> calculate_chat_duration_minutes now c = elapsed_minutes_claimed now c)
   \<and> (\<forall>T. started_at c = Some T \<and> ended_at c = Some (T + seconds 30)
          \<longrightarrow> calculate_chat_duration_minutes now c = 1 \<and> calculate_chat_billing now c = 1)"
proof (intro conjI allI impI)
  show "calculate_chat_duration_minutes now c = 0" if "started_at c = None"
    using that by (rule duration_started_none)
next
  fix s assume "started_at c = Some s \<and> chat_end_time now c < s"
  then show "calculate_chat_duration_minutes now c = 0"
    by (simp add: duration_not_after)
next
  fix s assume a: "started_at c = Some s \<and> s < chat_end_time now c"
  then have eq: "calculate_chat_duration_minutes now c = ceil_minutes (chat_end_time now c - s)"
    by (simp add: duration_after)
  show "calculate_chat_duration_minutes now c
          = \<lceil>((of_int (chat_end_time now c - s) :: real) / 1000000) / 60\<rceil>"
    unfolding eq by (rule ceil_minutes_ceiling)
  show pos: "1 \<le> calculate_chat_duration_minutes now c"
    unfolding eq using a by (intro ceil_minutes_pos) simp
  show "calculate_chat_duration_minutes now c = elapsed_minutes_claimed now c"
    using a pos unfolding eq
    by (simp add: elapsed_minutes_claimed_def Let_def ceil_minutes_ceiling)
next
  fix T assume a: "started_at c = Some T \<and> ended_at c = Some (T + seconds 30)"
  then have e: "chat_end_time now c = T + seconds 30"
    by (simp add: chat_end_time_def)
  have "T < chat_end_time now c"
    unfolding e by (simp add: seconds_def)
  with a have "calculate_chat_duration_minutes now c = ceil_minutes (chat_end_time now c - T)"
    by (simp add: duration_after)
  then show one: "calculate_chat_duration_minutes now c = 1"
    unfolding e by (simp add: ceil_minutes_half_minute)
  show "calculate_chat_billing now c = 1"
    by (simp add: calculate_chat_billing_def one CHAT_RATE_PER_MINUTE_def)
qed

text \<open>
  Claim C4, instances: a chat that never started, a chat whose \<open>ended_at\<close> lies four
  minutes before its \<open>started_at\<close>, a running chat 61 seconds after its start, and the
  chat that ended 30 seconds after its start.
\<close>

theorem C4_duration_minutes_witness:
  "calculate_chat_duration_minutes 0 (example_chat\<lparr>started_at := None\<rparr>) = 0
   \<and> calculate_chat_duration_minutes 0
        (example_chat\<lparr>started_at := Some (minutes 10), ended_at := Some (minutes 6)\<rparr>) = 0
   \<and> calculate_chat_duration_minutes (seconds 61) example_chat = 2
   \<and> calculate_chat_duration_minutes 0 (example_chat\<lparr>ended_at := Some (seconds 30)\<rparr>) = 1
   \<and> calculate_chat_billing 0 (example_chat\<lparr>ended_at := Some (seconds 30)\<rparr>) = 1"
proof -
  have 1: "calculate_chat_duration_minutes 0 (example_chat\<lparr>started_at := None\<rparr>) = 0"
    using C4_duration_minutes[of "example_chat\<lparr>started_at := None\<rparr>" 0] by simp
  have 2: "calculate_chat_duration_minutes 0
        (example_chat\<lparr>started_at := Some (minutes 10), ended_at := Some (minutes 6)\<rparr>) = 0"
    using C4_duration_minutes[of
        "example_chat\<lparr>started_at := Some (minutes 10), ended_at := Some (minutes 6)\<rparr>" 0]
    by (simp add: chat_end_time_def minutes_def)
  have 3: "calculate_chat_duration_minutes (seconds 61) example_chat = 2"
    using C4_duration_minutes[of example_chat "seconds 61"]
    by (simp add: chat_end_time_def seconds_def example_chat_def)
  have 4: "calculate_chat_duration_minutes 0 (example_chat\<lparr>ended_at := Some (seconds 30)\<rparr>) = 1
     \<and> calculate_chat_billing 0 (example_chat\<lparr>ended_at := Some (seconds 30)\<rparr>) = 1"
    using C4_duration_minutes[of "example_chat\<lparr>ended_at := Some (seconds 30)\<rparr>" 0]
    by (simp add: example_chat_def)
  from 1 2 3 4 show ?thesis by simp
qed

text \<open>
  Claim C4 as stated fails: with \<open>started_at\<close> at minute 10 and \<open>ended_at\<close> at minute 6
  both are set, the stated rule gives at least 1 minute, and the source returns 0.
\<close>

theorem C4_floor_rule_counterexample:
  "calculate_chat_duration_minutes 0
       (example_chat\<lparr>started_at := Some (minutes 10), ended_at := Some (minutes 6)\<rparr>) = 0
   \<and> elapsed_minutes_claimed 0
       (example_chat\<lparr>started_at := Some (minutes 10), ended_at := Some (minutes 6)\<rparr>) = 1"
  by (simp add: calculate_chat_duration_minutes_def elapsed_minutes_claimed_def
        chat_end_time_def minutes_def)

text \<open>
  Claim C10. Settlement of a session that is not yet billed and whose \<open>started_at\<close> is
  null debits nothing: it returns success and leaves every wallet as it was. The row of
  the session, read back from the database, then has \<open>is_billed = true\<close>,
  \<open>billed_amount = 0\<close> and \<open>duration_minutes = 0\<close>, with \<open>billing_processed_at\<close> set to
  the time of the call; its status is unchanged, and so is every other row. Every later
  settlement of that session returns success and changes nothing, so the session is out
  of the billing retries for good.
\<close>

theorem C10_never_started_marked_billed:
  assumes "chats d cid = Some c" and "started_at c = None" and "\<not> is_billed c"
  shows "fst (calculate_and_deduct_chat_billing now cid d) = True
       \<and> profiles (snd (calculate_and_deduct_chat_billing now cid d)) = profiles d
       \<and> (\<exists>c'. chats (snd (calculate_and_deduct_chat_billing now cid d)) cid = Some c'
              \<and> is_billed c' \<and> billed_amount c' = 0 \<and> duration_minutes c' = 0
              \<and> billing_processed_at c' = Some now \<and> started_at c' = None
              \<and> status c' = status c)
       \<and> (\<forall>other. other \<noteq> cid \<longrightarrow>
              chats (snd (calculate_and_deduct_chat_billing now cid d)) other = chats d other)
       \<and> (\<forall>later. calculate_and_deduct_chat_billing later cid
                        (snd (calculate_and_deduct_chat_billing now cid d))
                      = (True, snd (calculate_and_deduct_chat_billing now cid d)))"
proof -
  let ?c' = "c\<lparr>is_billed := True, billing_processed_at := Some now,
                duration_minutes := 0, billed_amount := 0\<rparr>"
  have run: "calculate_and_deduct_chat_billing now cid d = (True, put_chat cid ?c' d)"
    using assms by (simp add: calculate_and_deduct_chat_billing_def)
  have row: "chats (put_chat cid ?c' d) cid = Some ?c'"
    by simp
  have again: "calculate_and_deduct_chat_billing later cid (put_chat cid ?c' d)
                 = (True, put_chat cid ?c' d)" for later
    by (simp add: calculate_and_deduct_chat_billing_def)
  show ?thesis
    unfolding run using assms(2) by (simp add: again)
qed

text \<open>
  Claim C10, instance: a completed chat without \<open>started_at\<close> that carries the stale
  figures 4 and 4, its user holding 10; the row is read back after settlement at minute 3,
  and settlement is run again at minute 9.
\<close>

theorem C10_never_started_marked_billed_witness:
  "fst (calculate_and_deduct_chat_billing (minutes 3) 1 (example_db never_started_chat 10))
     = True
   \<and> profiles (snd (calculate_and_deduct_chat_billing (minutes 3) 1
                      (example_db never_started_chat 10))) 7 = Some 10
   \<and> map_option is_billed
        (chats (snd (calculate_and_deduct_chat_billing (minutes 3) 1
                       (example_db never_started_chat 10))) 1) = Some True
   \<and> map_option billed_amount
        (chats (snd (calculate_and_deduct_chat_billing (minutes 3) 1
                       (example_db never_started_chat 10))) 1) = Some 0
   \<and> map_option duration_minutes
        (chats (snd (calculate_and_deduct_chat_billing (minutes 3) 1
                       (example_db never_started_chat 10))) 1) = Some 0
   \<and> calculate_and_deduct_chat_billing (minutes 9) 1
        (snd (calculate_and_deduct_chat_billing (minutes 3) 1
                (example_db never_started_chat 10)))
      = (True, snd (calculate_and_deduct_chat_billing (minutes 3) 1
                      (example_db never_started_chat 10)))"
proof -
  have c: "chats (example_db never_started_chat 10) 1 = Some never_started_chat"
    by (simp add: example_db_def)
  have s: "started_at never_started_chat = None" and b: "\<not> is_billed never_started_chat"
    by (simp_all add: never_started_chat_def example_chat_def)
  have p: "profiles (example_db never_started_chat 10) 7 = Some 10"
    by (simp add: example_db_def)
  from C10_never_started_marked_billed[OF c s b, of "minutes 3"] p
  show ?thesis by auto
qed

lemma settle_unbilled_started:
  assumes "chats d cid = Some c" and "\<not> is_billed c" and "started_at c = Some s"
  shows "calculate_and_deduct_chat_billing now cid d =
     (let c1 = c\<lparr>ended_at := Some (chat_end_time now c)\<rparr>;
          d1 = put_chat cid c1 d;
          amount = calculate_chat_billing now c;
          r = (if 0 < amount then deduct_chat_billing c1 amount d1 else (True, d1))
      in if fst r \<or> amount = 0
         then (True, update_chat cid
                 (\<lambda>row. row\<lparr>duration_minutes := calculate_chat_duration_minutes now c,
                               billed_amount := amount, is_billed := True,
                               billing_processed_at := Some now\<rparr>) (snd r))
         else (False, update_chat cid
                 (\<lambda>row. row\<lparr>duration_minutes := calculate_chat_duration_minutes now c,
                               billed_amount := amount\<rparr>) (snd r)))"
proof (cases "ended_at c")
  case None
  then show ?thesis
    using assms
    by (simp add: calculate_and_deduct_chat_billing_def Let_def case_prod_beta
          chat_end_time_def billing_ended_now duration_ended_now)
next
  case (Some e)
  then have same: "c\<lparr>ended_at := Some e\<rparr> = c" by simp
  have put: "put_chat cid c d = d"
    using assms(1) by (simp add: put_chat_def fun_upd_idem)
  show ?thesis
    using assms Some
    by (simp add: calculate_and_deduct_chat_billing_def Let_def case_prod_beta
          chat_end_time_def same put)
qed

text \<open>
  Claim C8. When the requester's wallet holds less than the amount owed, settlement of a
  session that is not yet billed reports failure (returns \<open>False\<close>), charges nothing
  (every wallet is as before), leaves \<open>is_billed\<close> false and leaves the status of the
  session as it was: a session closed as \<open>completed\<close> stays \<open>completed\<close>.
\<close>

theorem C8_insufficient_balance:
  assumes "chats d cid = Some c" and "\<not> is_billed c"
    and "user c = Some u" and "profiles d u = Some w" and "0 \<le> w"
    and "w < calculate_chat_billing now c"
  shows "fst (calculate_and_deduct_chat_billing now cid d) = False
       \<and> profiles (snd (calculate_and_deduct_chat_billing now cid d)) = profiles d
       \<and> (\<exists>c'. chats (snd (calculate_and_deduct_chat_billing now cid d)) cid = Some c'
                \<and> \<not> is_billed c' \<and> status c' = status c)"
proof -
  have pos: "0 < calculate_chat_billing now c"
    using assms(5,6) by linarith
  then obtain s where s: "started_at c = Some s"
    by (cases "started_at c")
       (simp_all add: calculate_chat_billing_def calculate_chat_duration_minutes_def)
  let ?c1 = "c\<lparr>ended_at := Some (chat_end_time now c)\<rparr>"
  have ded: "deduct_chat_billing ?c1 (calculate_chat_billing now c) (put_chat cid ?c1 d)
               = (False, put_chat cid ?c1 d)"
    using assms(3,4,6) pos by (simp add: deduct_chat_billing_def)
  show ?thesis
    using pos ded assms(1,2)
    by (simp add: settle_unbilled_started[OF assms(1,2) s] Let_def)
qed

text \<open>
  Claim C8, instance: the example chat closed as \<open>completed\<close> after three minutes owes 3,
  and its user holds 0.
\<close>

theorem C8_insufficient_balance_witness:
  "fst (calculate_and_deduct_chat_billing (minutes 3) 1
          (example_db (example_chat\<lparr>status := completed, ended_at := Some (minutes 3)\<rparr>) 0))
     = False
   \<and> profiles (snd (calculate_and_deduct_chat_billing (minutes 3) 1
          (example_db (example_chat\<lparr>status := completed, ended_at := Some (minutes 3)\<rparr>) 0))) 7
     = Some 0
   \<and> (\<exists>c'. chats (snd (calculate_and_deduct_chat_billing (minutes 3) 1
          (example_db (example_chat\<lparr>status := completed, ended_at := Some (minutes 3)\<rparr>) 0))) 1
            = Some c' \<and> \<not> is_billed c' \<and> status c' = completed)"
proof -
  let ?c = "example_chat\<lparr>status := completed, ended_at := Some (minutes 3)\<rparr>"
  have owed: "calculate_chat_billing (minutes 3) ?c = 3"
    by (simp add: calculate_chat_billing_def calculate_chat_duration_minutes_def
          CHAT_RATE_PER_MINUTE_def example_chat_def minutes_def ceil_minutes_def)
  have "fst (calculate_and_deduct_chat_billing (minutes 3) 1 (example_db ?c 0)) = False
       \<and> profiles (snd (calculate_and_deduct_chat_billing (minutes 3) 1 (example_db ?c 0)))
           = profiles (example_db ?c 0)
       \<and> (\<exists>c'. chats (snd (calculate_and_deduct_chat_billing (minutes 3) 1 (example_db ?c 0))) 1
                  = Some c' \<and> \<not> is_billed c' \<and> status c' = status ?c)"
    by (rule C8_insufficient_balance[where u = 7 and w = 0])
       (simp_all add: owed, simp_all add: example_db_def example_chat_def)
  then show ?thesis
    by (simp add: example_db_def)
qed

lemma Chat_save_balance_ok:
  "balance_ok d u \<Longrightarrow> balance_ok (Chat_save now cid fs obj d) u"
  by (simp add: Chat_save_def Let_def settle_balance_ok split: option.split)

lemma Chat_save_not_completed:
  "status obj \<noteq> completed \<Longrightarrow>
     Chat_save now cid fs obj d =
       (case fs of None \<Rightarrow> put_chat cid obj d
                 | Some xs \<Rightarrow> update_chat cid (write_fields xs obj) d)"
  by (simp add: Chat_save_def)

lemma balance_ok_debit:
  "profiles d u' = Some w \<Longrightarrow> a \<le> w \<Longrightarrow> balance_ok d u \<Longrightarrow>
     balance_ok (d\<lparr>profiles := (profiles d)(u' \<mapsto> w - a)\<rparr>) u"
  by (simp add: balance_ok_def)

lemma process_active_chat_balance_ok:
  "balance_ok d u \<Longrightarrow>
     balance_ok (snd (process_active_chat check_only min_duration now cid c d)) u"
  by (simp add: process_active_chat_def Let_def Chat_save_balance_ok balance_ok_debit
        split: option.split)

lemma process_chats_balance_ok:
  "balance_ok d u \<Longrightarrow>
     balance_ok (snd (process_chats check_only min_duration now cs d)) u"
proof (induction cs arbitrary: d)
  case Nil
  then show ?case by simp
next
  case (Cons p cs)
  obtain cid c where p: "p = (cid, c)" by (cases p)
  have "balance_ok (snd (process_active_chat check_only min_duration now cid c d)) u"
    using Cons.prems by (rule process_active_chat_balance_ok)
  then have "balance_ok (snd (process_chats check_only min_duration now cs
                (snd (process_active_chat check_only min_duration now cid c d)))) u"
    by (rule Cons.IH)
  then show ?case
    by (simp add: p Let_def case_prod_beta)
qed

lemma accrual_step:
  assumes "user c = Some u" and "profiles d u = Some w" and "status c = active"
    and "\<not> check_only" and "min_duration \<le> calculate_chat_duration_minutes now c"
    and "0 < calculate_chat_billing now c - billed_amount c"
  shows "fst (process_active_chat check_only min_duration now cid c d)
           = (if calculate_chat_billing now c - billed_amount c \<le> w
              then Deducted (calculate_chat_billing now c - billed_amount c)
              else Insufficient_balance)"
    and "profiles (snd (process_active_chat check_only min_duration now cid c d))
           = (if calculate_chat_billing now c - billed_amount c \<le> w
              then (profiles d)(u \<mapsto> w - (calculate_chat_billing now c - billed_amount c))
              else profiles d)"
  using assms
  by (simp_all add: process_active_chat_def Let_def Chat_save_not_completed)

text \<open>
  Claim C9. No billing operation overdraws a wallet: a wallet that is not negative before
  \<open>deduct_chat_billing\<close>, or before a run of the periodic accrual over any chats, is not
  negative after it. Both charge only when the balance is at least the amount to deduct:
  \<open>deduct_chat_billing\<close> then subtracts the amount and returns \<open>True\<close>, and otherwise
  returns \<open>False\<close> with the database unchanged; the accrual step for an active chat
  subtracts the incremental amount, and otherwise reports the insufficient balance and
  leaves all wallets unchanged.
\<close>

theorem C9_wallet_never_negative:
  assumes "balance_ok d u"
  shows "balance_ok (snd (deduct_chat_billing c amount d)) u
       \<and> balance_ok (snd (handle check_only min_duration now ids d)) u
       \<and> (\<forall>w. user c = Some u \<and> profiles d u = Some w \<and> 0 < amount \<longrightarrow>
             deduct_chat_billing c amount d
               = (if amount \<le> w
                  then (True, d\<lparr>profiles := (profiles d)(u \<mapsto> w - amount)\<rparr>)
                  else (False, d)))
       \<and> (\<forall>w. user c = Some u \<and> profiles d u = Some w \<and> status c = active
               \<and> \<not> check_only \<and> min_duration \<le> calculate_chat_duration_minutes now c
               \<and> 0 < calculate_chat_billing now c - billed_amount c \<longrightarrow>
             fst (process_active_chat check_only min_duration now cid c d)
               = (if calculate_chat_billing now c - billed_amount c \<le> w
                  then Deducted (calculate_chat_billing now c - billed_amount c)
                  else Insufficient_balance)
             \<and> profiles (snd (process_active_chat check_only min_duration now cid c d))
               = (if calculate_chat_billing now c - billed_amount c \<le> w
                  then (profiles d)(u \<mapsto> w - (calculate_chat_billing now c - billed_amount c))
                  else profiles d))"
proof (intro conjI allI impI)
  show "balance_ok (snd (deduct_chat_billing c amount d)) u"
    using assms by (rule deduct_balance_ok)
  show "balance_ok (snd (handle check_only min_duration now ids d)) u"
    unfolding handle_def using assms by (rule process_chats_balance_ok)
next
  fix w assume "user c = Some u \<and> profiles d u = Some w \<and> 0 < amount"
  then show "deduct_chat_billing c amount d
               = (if amount \<le> w
                  then (True, d\<lparr>profiles := (profiles d)(u \<mapsto> w - amount)\<rparr>)
                  else (False, d))"
    by (simp add: deduct_chat_billing_def)
next
  fix w
  assume a: "user c = Some u \<and> profiles d u = Some w \<and> status c = active
               \<and> \<not> check_only \<and> min_duration \<le> calculate_chat_duration_minutes now c
               \<and> 0 < calculate_chat_billing now c - billed_amount c"
  show "fst (process_active_chat check_only min_duration now cid c d)
               = (if calculate_chat_billing now c - billed_amount c \<le> w
                  then Deducted (calculate_chat_billing now c - billed_amount c)
                  else Insufficient_balance)"
    using a accrual_step(1)[of c u d w check_only min_duration now cid] by simp
  show "profiles (snd (process_active_chat check_only min_duration now cid c d))
               = (if calculate_chat_billing now c - billed_amount c \<le> w
                  then (profiles d)(u \<mapsto> w - (calculate_chat_billing now c - billed_amount c))
                  else profiles d)"
    using a accrual_step(2)[of c u d w check_only min_duration now cid] by simp
qed

lemma example_billing_5: "calculate_chat_billing (minutes 5) example_chat = 5"
  by (simp add: calculate_chat_billing_def calculate_chat_duration_minutes_def
        CHAT_RATE_PER_MINUTE_def example_chat_def minutes_def ceil_minutes_def)

lemma example_duration_5: "calculate_chat_duration_minutes (minutes 5) example_chat = 5"
  by (simp add: calculate_chat_duration_minutes_def example_chat_def minutes_def
        ceil_minutes_def)

text \<open>
  Claim C9, instances: the example user holding 3 is asked for 5 and for 2 by
  \<open>deduct_chat_billing\<close>, and for 5 by the accrual at minute 5; holding 8, the accrual
  deducts 5.
\<close>

theorem C9_wallet_never_negative_witness:
  "balance_ok (example_db example_chat 3) 7
   \<and> balance_ok (snd (handle False 1 (minutes 5) [1] (example_db example_chat 3))) 7
   \<and> deduct_chat_billing example_chat 5 (example_db example_chat 3)
       = (False, example_db example_chat 3)
   \<and> deduct_chat_billing example_chat 2 (example_db example_chat 3)
       = (True, example_db example_chat 1)
   \<and> fst (process_active_chat False 1 (minutes 5) 1 example_chat (example_db example_chat 3))
       = Insufficient_balance
   \<and> profiles (snd (process_active_chat False 1 (minutes 5) 1 example_chat
                      (example_db example_chat 3))) 7 = Some 3
   \<and> fst (process_active_chat False 1 (minutes 5) 1 example_chat (example_db example_chat 8))
       = Deducted 5
   \<and> profiles (snd (process_active_chat False 1 (minutes 5) 1 example_chat
                      (example_db example_chat 8))) 7 = Some 3"
proof -
  have ok3: "balance_ok (example_db example_chat 3) 7"
    by (simp add: balance_ok_def example_db_def)
  have ok8: "balance_ok (example_db example_chat 8) 7"
    by (simp add: balance_ok_def example_db_def)
  have u: "user example_chat = Some 7" and st: "status example_chat = active"
    and ba: "billed_amount example_chat = 0"
    by (simp_all add: example_chat_def)
  have p3: "profiles (example_db example_chat 3) 7 = Some 3"
    and p8: "profiles (example_db example_chat 8) 7 = Some 8"
    by (simp_all add: example_db_def)
  note a = C9_wallet_never_negative[OF ok3, of example_chat 5 False 1 "minutes 5" "[1]" 1]
  note b = C9_wallet_never_negative[OF ok3, of example_chat 2 False 1 "minutes 5" "[1]" 1]
  note c = C9_wallet_never_negative[OF ok8, of example_chat 2 False 1 "minutes 5" "[1]" 1]
  have 1: "balance_ok (snd (handle False 1 (minutes 5) [1] (example_db example_chat 3))) 7"
    using a by simp
  have 2: "deduct_chat_billing example_chat 5 (example_db example_chat 3)
       = (False, example_db example_chat 3)"
    using a u p3 by simp
  have 3: "deduct_chat_billing example_chat 2 (example_db example_chat 3)
       = (True, example_db example_chat 1)"
    using b u p3 by (simp add: example_db_def)
  have 4: "fst (process_active_chat False 1 (minutes 5) 1 example_chat (example_db example_chat 3))
       = Insufficient_balance
     \<and> profiles (snd (process_active_chat False 1 (minutes 5) 1 example_chat
                      (example_db example_chat 3))) 7 = Some 3"
    using a u p3 st ba by (simp add: example_billing_5 example_duration_5)
  have 5: "fst (process_active_chat False 1 (minutes 5) 1 example_chat (example_db example_chat 8))
       = Deducted 5
     \<and> profiles (snd (process_active_chat False 1 (minutes 5) 1 example_chat
                      (example_db example_chat 8))) 7 = Some 3"
    using c u p8 st ba by (simp add: example_billing_5 example_duration_5)
  from ok3 1 2 3 4 5 show ?thesis by simp
qed

lemma accrued_db_eq:
  "accrued_db = example_db (example_chat\<lparr>billed_amount := 5, duration_minutes := 5\<rparr>) 10"
  by (simp add: accrued_db_def handle_def active_chats_def List.map_filter_def
        process_active_chat_def Let_def Chat_save_def write_fields_def
        calculate_chat_billing_def calculate_chat_duration_minutes_def CHAT_RATE_PER_MINUTE_def
        minutes_def ceil_minutes_def example_db_def example_chat_def put_chat_def
        update_chat_def)

text \<open>
  Claim C1 fails on the code. In the scenario above the accrual at minute 5 has charged 5
  (the wallet went from 15 to 10, \<open>billed_amount\<close> is 5). The chat ends at minute 7 and
  owes 7. Settlement succeeds and leaves the wallet at 3: it has debited the whole amount
  owed, 7, and not the difference of 2 to what was already charged.
\<close>

theorem C1_settlement_charges_full_amount:
  "profiles accrued_db 7 = Some 10
   \<and> map_option billed_amount (chats accrued_db 1) = Some 5
   \<and> map_option ended_at (chats closed_db 1) = Some (Some (minutes 7))
   \<and> fst (calculate_and_deduct_chat_billing (minutes 7) 1 closed_db) = True
   \<and> profiles (snd (calculate_and_deduct_chat_billing (minutes 7) 1 closed_db)) 7 = Some 3"
  unfolding closed_db_def accrued_db_eq
  by (simp add: example_db_def example_chat_def calculate_and_deduct_chat_billing_def
        calculate_chat_billing_def calculate_chat_duration_minutes_def CHAT_RATE_PER_MINUTE_def
        deduct_chat_billing_def minutes_def ceil_minutes_def Let_def)

lemma Chat_save_messages [simp]: "messages (Chat_save now cid fs obj d) = messages d"
  by (simp add: Chat_save_def Let_def split: option.split)

lemma check_wallet_messages [simp]:
  "messages (snd (check_chat_wallet_balance u d)) = messages d"
  by (simp add: check_chat_wallet_balance_def split: option.split)

lemma auto_disconnect_messages [simp]:
  "messages (snd (auto_disconnect now cid c d)) = messages d"
  by (simp add: auto_disconnect_def Let_def split: option.split)

lemma activate_chat_messages [simp]:
  "messages (snd (snd (activate_chat now cid c d))) = messages d"
  by (simp add: activate_chat_def Let_def split: option.split)

lemma user_message_messages [simp]:
  "messages (snd (snd (user_message now cid c d))) = messages d"
  by (simp add: user_message_def Let_def case_prod_beta)

lemma counsellor_message_messages [simp]:
  "messages (snd (counsellor_message now cid c d)) = messages d"
  by (simp add: counsellor_message_def Let_def split: option.split)

lemma save_message_messages:
  "messages (snd (save_message now cid me txt cmid d)) = messages d
   \<or> (find_by_client_id cid me cmid d = None \<or> \<not> truthy cmid)
     \<and> (\<exists>m. messages (snd (save_message now cid me txt cmid d)) = messages d @ [m]
            \<and> msg_chat m = cid \<and> sender m = me \<and> client_message_id m = cmid)"
  by (auto simp: save_message_def Let_def case_prod_beta split: option.split)

lemma find_by_client_id_None:
  "find_by_client_id cid me cmid d = None \<Longrightarrow>
     (cid, me, cmid) \<notin> msg_key ` set (messages d)"
  by (auto simp: find_by_client_id_def find_None_iff msg_key_def)

lemma save_message_unique:
  assumes "unique_client_ids d"
  shows "unique_client_ids (snd (save_message now cid me txt cmid d))"
proof -
  consider (same) "messages (snd (save_message now cid me txt cmid d)) = messages d"
    | (new) m where "find_by_client_id cid me cmid d = None \<or> \<not> truthy cmid"
        "messages (snd (save_message now cid me txt cmid d)) = messages d @ [m]"
        "msg_chat m = cid" "sender m = me" "client_message_id m = cmid"
    using save_message_messages[of now cid me "txt" cmid d] by blast
  then show ?thesis
  proof cases
    case same
    then show ?thesis using assms by (simp add: unique_client_ids_def)
  next
    case new
    show ?thesis
    proof (cases "truthy cmid")
      case False
      then show ?thesis using assms new by (simp add: unique_client_ids_def)
    next
      case True
      with new(1) have "find_by_client_id cid me cmid d = None" by simp
      then have "(cid, me, cmid) \<notin> msg_key ` set (messages d)"
        by (rule find_by_client_id_None)
      then have "msg_key m \<notin> msg_key ` set (filter (\<lambda>m. truthy (client_message_id m)) (messages d))"
        using new(3-5) by (auto simp: msg_key_def)
      then show ?thesis
        using assms new True by (simp add: unique_client_ids_def)
    qed
  qed
qed

text \<open>
  Claim C5, as amended. A call of \<open>save_message\<close> that supplies a non-empty client
  message id for which the log already holds a message of the same chat, sender and
  client message id returns the duplicate outcome and leaves the database as it is: no
  new row, no change of the session. \<open>receive\<close> then answers with the single frame
  \<open>ack\<close>, status \<open>duplicate\<close>, \<open>message_id = null\<close>. Hence the log keeps at most one
  message per chat, sender and non-empty client message id, whatever call of
  \<open>save_message\<close> comes next.
\<close>

theorem C5_duplicate_client_message_id:
  assumes "chats d cid = Some c"
    and "k \<noteq> []"
    and "m \<in> set (messages d)"
    and "msg_chat m = cid" and "sender m = me" and "client_message_id m = Some k"
  shows "save_message now cid me txt (Some k) d = (Inr None, d)
       \<and> (txt \<noteq> [] \<and> length txt \<le> 5000 \<longrightarrow>
            receive now cid me txt (Some k) d = ([Ack ''duplicate'' (Some k) None], d))
       \<and> (unique_client_ids d \<longrightarrow>
            (\<forall>now' cid' me' txt' cmid'.
               unique_client_ids (snd (save_message now' cid' me' txt' cmid' d))))"
proof -
  have t: "truthy (Some k)"
    using assms(2) by (simp add: truthy_def)
  have "find_by_client_id cid me (Some k) d \<noteq> None"
    using assms(3-6) by (auto simp: find_by_client_id_def find_None_iff)
  then have dup: "save_message now cid me txt (Some k) d = (Inr None, d)"
    using assms(1) t by (simp add: save_message_def)
  show ?thesis
    by (simp add: dup receive_def save_message_unique)
qed

text \<open>
  Claim C5, instance: user 7 resubmits \<open>hello\<close> with the client message id \<open>c1\<close> nine
  seconds after the first submission, and then sends another message with the id \<open>c2\<close>.
\<close>

theorem C5_duplicate_client_message_id_witness:
  "save_message (seconds 9) 1 7 ''hello'' (Some ''c1'')
       ((example_db example_chat 10)\<lparr>messages := [first_message]\<rparr>)
     = (Inr None, (example_db example_chat 10)\<lparr>messages := [first_message]\<rparr>)
   \<and> receive (seconds 9) 1 7 ''hello'' (Some ''c1'')
       ((example_db example_chat 10)\<lparr>messages := [first_message]\<rparr>)
     = ([Ack ''duplicate'' (Some ''c1'') None],
        (example_db example_chat 10)\<lparr>messages := [first_message]\<rparr>)
   \<and> unique_client_ids (snd (save_message (seconds 9) 1 7 ''again'' (Some ''c2'')
       ((example_db example_chat 10)\<lparr>messages := [first_message]\<rparr>)))"
proof -
  let ?d = "(example_db example_chat 10)\<lparr>messages := [first_message]\<rparr>"
  have u: "unique_client_ids ?d"
    by (simp add: unique_client_ids_def)
  have "save_message (seconds 9) 1 7 ''hello'' (Some ''c1'') ?d = (Inr None, ?d)
       \<and> (''hello'' \<noteq> [] \<and> length ''hello'' \<le> 5000 \<longrightarrow>
            receive (seconds 9) 1 7 ''hello'' (Some ''c1'') ?d
              = ([Ack ''duplicate'' (Some ''c1'') None], ?d))
       \<and> (unique_client_ids ?d \<longrightarrow>
            (\<forall>now' cid' me' txt' cmid'.
               unique_client_ids (snd (save_message now' cid' me' txt' cmid' ?d))))"
    by (rule C5_duplicate_client_message_id[where m = first_message and c = example_chat])
       (simp_all add: example_db_def first_message_def)
  with u show ?thesis by simp
qed

text \<open>
  Claim C5 as stated fails for the empty client message id, which the test
  \<open>if client_message_id:\<close> treats as no id. The log holds a message of user 7 in chat 1
  with the id \<open>""\<close>; user 7 sends another text with the id \<open>""\<close> nine seconds later. The
  look-up by chat, sender and id would find the first message, yet the call is not a
  duplicate: a second row with the same chat, sender and client message id is stored,
  and \<open>receive\<close> broadcasts it instead of acknowledging a duplicate.
\<close>

theorem C5_empty_id_counterexample:
  "find_by_client_id 1 7 (Some [])
       ((example_db example_chat 10)\<lparr>messages := [empty_id_message]\<rparr>)
     = Some empty_id_message
   \<and> fst (save_message (seconds 9) 1 7 ''again'' (Some [])
            ((example_db example_chat 10)\<lparr>messages := [empty_id_message]\<rparr>))
     = Inr (Some (second_empty_id_message, False))
   \<and> messages (snd (save_message (seconds 9) 1 7 ''again'' (Some [])
            ((example_db example_chat 10)\<lparr>messages := [empty_id_message]\<rparr>)))
     = [empty_id_message, second_empty_id_message]
   \<and> msg_key empty_id_message = (1, 7, Some [])
   \<and> msg_key second_empty_id_message = (1, 7, Some [])
   \<and> fst (receive (seconds 9) 1 7 ''again'' (Some [])
            ((example_db example_chat 10)\<lparr>messages := [empty_id_message]\<rparr>))
     = [Group_message second_empty_id_message]"
  by (simp add: receive_def save_message_def find_by_client_id_def find_recent_duplicate_def
        truthy_def user_message_def reactivate_after_inactivity_def auto_disconnect_def
        activate_chat_def msg_key_def empty_id_message_def second_empty_id_message_def
        example_db_def example_chat_def seconds_def minutes_def hours_def Let_def)

lemma counsellor_message_row:
  assumes "chats d cid = Some c"
  shows "chats (snd (counsellor_message now cid c d)) cid =
     Some (case last_user_activity c of
             None \<Rightarrow> c
           | Some t \<Rightarrow>
               if status c = active \<and> t < now - minutes 5
               then c\<lparr>status := inactive,
                      ended_at := (case ended_at c of None \<Rightarrow> Some (t + minutes 5)
                                                    | Some e \<Rightarrow> Some e),
                      started_at := (case started_at c of
                                       None \<Rightarrow> Some (case created_at c of Some t' \<Rightarrow> t' | None \<Rightarrow> now)
                                     | Some s \<Rightarrow> Some s)\<rparr>
               else c)"
  using assms
  by (cases "ended_at c"; cases "started_at c")
     (simp_all add: counsellor_message_def Let_def Chat_save_def write_fields_def
        split: option.split)

lemma save_message_counsellor:
  assumes "chats d cid = Some c" and "user c \<noteq> Some me"
    and "save_message now cid me txt cmid d = (Inr (Some (m, activated)), d')"
  shows "\<not> activated" and "chats d' = chats (snd (counsellor_message now cid c d))"
    and "messages d' = messages d @ [m]"
  using assms
  by (auto simp: save_message_def Let_def split: if_splits)

text \<open>
  Claim C6. When the sender is not the chat's user and the message is saved, the chat is
  never activated: \<open>chat_was_activated\<close> is false and the stored status is \<open>active\<close> only
  if it was \<open>active\<close> before. If the chat is \<open>active\<close> and the user's last activity lies
  more than five minutes back, the stored status becomes \<open>inactive\<close>, and \<open>ended_at\<close>,
  when it was unset, becomes the last activity plus five minutes.
\<close>

theorem C6_counsellor_message:
  assumes "chats d cid = Some c" and "user c \<noteq> Some me"
    and "save_message now cid me txt cmid d = (Inr (Some (m, activated)), d')"
  shows "\<not> activated
       \<and> (\<exists>c'. chats d' cid = Some c'
              \<and> (status c' = active \<longrightarrow> status c = active)
              \<and> (\<forall>t. status c = active \<and> last_user_activity c = Some t \<and> t < now - minutes 5
                     \<longrightarrow> status c' = inactive
                         \<and> (ended_at c = None \<longrightarrow> ended_at c' = Some (t + minutes 5))))"
proof -
  note r = save_message_counsellor[OF assms]
  have row: "chats d' cid = Some (case last_user_activity c of
             None \<Rightarrow> c
           | Some t \<Rightarrow>
               if status c = active \<and> t < now - minutes 5
               then c\<lparr>status := inactive,
                      ended_at := (case ended_at c of None \<Rightarrow> Some (t + minutes 5)
                                                    | Some e \<Rightarrow> Some e),
                      started_at := (case started_at c of
                                       None \<Rightarrow> Some (case created_at c of Some t' \<Rightarrow> t' | None \<Rightarrow> now)
                                     | Some s \<Rightarrow> Some s)\<rparr>
               else c)"
    unfolding r(2) using assms(1) by (rule counsellor_message_row)
  show ?thesis
    using r(1) by (auto simp: row split: option.split)
qed

text \<open>
  Claim C6, instance: counsellor 9 writes at minute 6 into the example chat, whose user
  was last active at time 0.
\<close>

theorem C6_counsellor_message_witness:
  "(\<exists>m d'. save_message (minutes 6) 1 9 ''are you there?'' None (example_db example_chat 10)
              = (Inr (Some (m, False)), d')
          \<and> map_option status (chats d' 1) = Some inactive
          \<and> map_option ended_at (chats d' 1) = Some (Some (minutes 5)))"
proof -
  obtain r d' where s: "save_message (minutes 6) 1 9 ''are you there?'' None
                          (example_db example_chat 10) = (r, d')"
    by (cases "save_message (minutes 6) 1 9 ''are you there?'' None (example_db example_chat 10)")
  then obtain m a where r: "r = Inr (Some (m, a))"
    by (auto simp: save_message_def example_db_def example_chat_def truthy_def
          find_recent_duplicate_def Let_def case_prod_beta)
  have c: "chats (example_db example_chat 10) 1 = Some example_chat"
    by (simp add: example_db_def)
  have u: "user example_chat \<noteq> Some 9"
    by (simp add: example_chat_def)
  from C6_counsellor_message[OF c u s[unfolded r]]
  have "\<not> a" and "\<exists>c'. chats d' 1 = Some c' \<and> status c' = inactive
                      \<and> ended_at c' = Some (minutes 5)"
    by (auto simp: example_chat_def minutes_def)
  with s r show ?thesis by auto
qed

lemma auto_disconnect_never_fires:
  "auto_disconnect now cid
     (reactivate_after_inactivity now p (c\<lparr>last_user_activity := Some now\<rparr>)) d
   = (reactivate_after_inactivity now p (c\<lparr>last_user_activity := Some now\<rparr>), d)"
  by (simp add: auto_disconnect_def reactivate_after_inactivity_def hours_def
        split: option.split)

text \<open>
  Claim C2 fails on the code. The user of the active example chat was last active at
  time 0 and sends \<open>hello\<close> 61 minutes later. The message is saved, but the chat is not
  closed: the row still has the status \<open>active\<close> and is not billed, and no wallet has
  changed. The one-hour test reads \<open>last_user_activity\<close> after it was overwritten with
  the current time (lemma \<open>auto_disconnect_never_fires\<close>).
\<close>

theorem C2_no_auto_close:
  "fst (save_message (minutes 61) 1 7 ''hello'' (Some ''c1'') stale_active_db)
     = Inr (Some (hello_message (minutes 61), False))
   \<and> messages (snd (save_message (minutes 61) 1 7 ''hello'' (Some ''c1'') stale_active_db))
     = [hello_message (minutes 61)]
   \<and> map_option status
        (chats (snd (save_message (minutes 61) 1 7 ''hello'' (Some ''c1'') stale_active_db)) 1)
     = Some active
   \<and> map_option ended_at
        (chats (snd (save_message (minutes 61) 1 7 ''hello'' (Some ''c1'') stale_active_db)) 1)
     = Some None
   \<and> map_option is_billed
        (chats (snd (save_message (minutes 61) 1 7 ''hello'' (Some ''c1'') stale_active_db)) 1)
     = Some False
   \<and> profiles (snd (save_message (minutes 61) 1 7 ''hello'' (Some ''c1'') stale_active_db)) 7
     = Some 100
   \<and> status (fst (user_message (minutes 61) 1 example_chat stale_active_db)) = active"
  by (simp add: stale_active_db_def example_db_def example_chat_def save_message_def
        truthy_def find_by_client_id_def user_message_def reactivate_after_inactivity_def
        auto_disconnect_def activate_chat_def hello_message_def minutes_def hours_def Let_def)

text \<open>
  Where activation works: a message of the chat's user to a queued, completed or
  cancelled chat, or to an inactive chat whose user was not silent for more than five
  minutes, returns \<open>chat_was_activated = True\<close> and stores the status \<open>active\<close> with
  \<open>ended_at\<close> cleared; a queued chat without counsellor gets the first user with a
  counsellor profile, and \<open>started_at\<close> becomes \<open>now\<close> when it was unset.
\<close>

lemma check_wallet_chats [simp]: "chats (snd (check_chat_wallet_balance u d)) = chats d"
  by (simp add: check_chat_wallet_balance_def split: option.split)

lemma check_wallet_counsellors [simp]:
  "counsellor_users (snd (check_chat_wallet_balance u d)) = counsellor_users d"
  by (simp add: check_chat_wallet_balance_def split: option.split)

lemma activate_chat_result:
  assumes "chats d cid = Some row"
  shows "fst (snd (activate_chat now cid c d))
           = (status c \<in> {queued, completed, inactive, cancelled})"
    and "\<exists>c'. chats (snd (snd (activate_chat now cid c d))) cid = Some c'
              \<and> status c' = active \<and> ended_at c' = None
              \<and> (status c = queued \<and> counsellor c = None \<longrightarrow>
                   counsellor c' = (case counsellor_users d of [] \<Rightarrow> counsellor row
                                                              | u # _ \<Rightarrow> Some u))
              \<and> (status c = queued \<and> started_at c = None \<longrightarrow> started_at c' = Some now)"
proof -
  show "fst (snd (activate_chat now cid c d))
           = (status c \<in> {queued, completed, inactive, cancelled})"
    by (auto simp: activate_chat_def Let_def)
  have ch: "chats (case user c of None \<Rightarrow> d | Some u \<Rightarrow> snd (check_chat_wallet_balance u d)) cid
              = Some row"
    using assms by (simp split: option.split)
  have cu: "counsellor_users (case user c of None \<Rightarrow> d
                                | Some u \<Rightarrow> snd (check_chat_wallet_balance u d))
              = counsellor_users d"
    by (simp split: option.split)
  show "\<exists>c'. chats (snd (snd (activate_chat now cid c d))) cid = Some c'
              \<and> status c' = active \<and> ended_at c' = None
              \<and> (status c = queued \<and> counsellor c = None \<longrightarrow>
                   counsellor c' = (case counsellor_users d of [] \<Rightarrow> counsellor row
                                                              | u # _ \<Rightarrow> Some u))
              \<and> (status c = queued \<and> started_at c = None \<longrightarrow> started_at c' = Some now)"
    using assms ch cu
    by (cases "status c = queued"; cases "counsellor c"; cases "started_at c";
        cases "counsellor_users d")
       (simp_all add: activate_chat_def Let_def Chat_save_def write_fields_def)
qed

lemma user_message_activates:
  assumes "chats d cid = Some c"
    and "status c \<in> {queued, completed, cancelled}
         \<or> status c = inactive
           \<and> (case last_user_activity c of None \<Rightarrow> True | Some p \<Rightarrow> now - minutes 5 \<le> p)"
  shows "fst (snd (user_message now cid c d))"
    and "\<exists>c'. chats (snd (snd (user_message now cid c d))) cid = Some c'
              \<and> status c' = active \<and> ended_at c' = None
              \<and> (status c = queued \<and> counsellor c = None \<longrightarrow>
                   counsellor c' = (case counsellor_users d of [] \<Rightarrow> None | u # _ \<Rightarrow> Some u))
              \<and> (status c = queued \<and> started_at c = None \<longrightarrow> started_at c' = Some now)"
proof -
  let ?c1 = "c\<lparr>last_user_activity := Some now\<rparr>"
  have same: "reactivate_after_inactivity now (last_user_activity c) ?c1 = ?c1"
    using assms(2) by (auto simp: reactivate_after_inactivity_def split: option.split)
  have run: "user_message now cid c d = activate_chat now cid ?c1 d"
    using assms(2)
    by (auto simp: user_message_def Let_def auto_disconnect_never_fires same)
  show "fst (snd (user_message now cid c d))"
    unfolding run using assms(2) by (auto simp: activate_chat_result(1)[OF assms(1)])
  from activate_chat_result(2)[OF assms(1), of now ?c1]
  show "\<exists>c'. chats (snd (snd (user_message now cid c d))) cid = Some c'
              \<and> status c' = active \<and> ended_at c' = None
              \<and> (status c = queued \<and> counsellor c = None \<longrightarrow>
                   counsellor c' = (case counsellor_users d of [] \<Rightarrow> None | u # _ \<Rightarrow> Some u))
              \<and> (status c = queued \<and> started_at c = None \<longrightarrow> started_at c' = Some now)"
    unfolding run by (auto split: list.splits)
qed

text \<open>
  Claim C7 fails on the code for an inactive chat whose user was silent for more than
  five minutes. The user writes at minute 10 into the chat that was marked inactive at
  minute 5: the message is saved, \<open>chat_was_activated\<close> is false, and the row keeps the
  status \<open>inactive\<close> and its \<open>ended_at\<close>. The chat object was set to \<open>active\<close> in memory
  by the earlier block, so the activation block, which would save it, is skipped. In
  every other case that the claim names the activation works (lemma
  \<open>user_message_activates\<close>).
\<close>

theorem C7_stale_inactive_not_activated:
  "fst (save_message (minutes 10) 1 7 ''hello'' (Some ''c1'')
          (example_db stale_inactive_chat 100))
     = Inr (Some (hello_message (minutes 10), False))
   \<and> map_option status
        (chats (snd (save_message (minutes 10) 1 7 ''hello'' (Some ''c1'')
                       (example_db stale_inactive_chat 100))) 1)
     = Some inactive
   \<and> map_option ended_at
        (chats (snd (save_message (minutes 10) 1 7 ''hello'' (Some ''c1'')
                       (example_db stale_inactive_chat 100))) 1)
     = Some (Some (minutes 5))
   \<and> status (fst (user_message (minutes 10) 1 stale_inactive_chat
                     (example_db stale_inactive_chat 100))) = active"
  by (simp add: stale_inactive_chat_def example_db_def example_chat_def save_message_def
        truthy_def find_by_client_id_def user_message_def reactivate_after_inactivity_def
        auto_disconnect_def activate_chat_def hello_message_def minutes_def hours_def Let_def)

lemma settle_row:
  assumes "chats d cid = Some c"
  shows "\<exists>c'. chats (snd (calculate_and_deduct_chat_billing now cid d)) cid = Some c'
              \<and> status c' = status c \<and> counsellor c' = counsellor c"
  using assms
  by (simp add: calculate_and_deduct_chat_billing_def Let_def case_prod_beta update_chat_def)

lemma end_chat_terminal:
  assumes "chats d cid = Some c" and "status c \<in> {completed, cancelled}"
  shows "end_chat_without_session now cid d = (Http_error 400, d)"
  using assms by (auto simp: end_chat_without_session_def)

lemma end_chat_first:
  assumes "chats d cid = Some c" and "counsellor c \<noteq> None" and "status c \<in> {active, inactive}"
  shows "\<exists>e b. fst (end_chat_without_session now cid d) = Ended e b"
    and "\<exists>c'. chats (snd (end_chat_without_session now cid d)) cid = Some c'
               \<and> status c' = completed"
proof -
  define c1 where "c1 = c\<lparr>status := completed\<rparr>"
  define c2 where "c2 = (if ended_at c1 = None then c1\<lparr>ended_at := Some now\<rparr> else c1)"
  define c3 where "c3 = (if started_at c2 = None then c2\<lparr>started_at := Some now\<rparr> else c2)"
  define d1 where "d1 = Chat_save now cid None c3 d"
  define d2 where "d2 = (case chats d1 cid of
                           None \<Rightarrow> d1
                         | Some row \<Rightarrow>
                             if is_billed row then d1
                             else snd (calculate_and_deduct_chat_billing now cid d1))"
  have not_terminal: "status c = active \<or> status c = inactive"
    using assms(3) by simp
  have run: "end_chat_without_session now cid d
               = (Ended (case chats d2 cid of None \<Rightarrow> None | Some row \<Rightarrow> ended_at row)
                    (billing_info_of cid d2), d2)"
    unfolding end_chat_without_session_def d2_def d1_def c3_def c2_def c1_def Let_def
    using assms(1,2) not_terminal by auto
  have st: "status c3 = completed"
    by (simp add: c3_def c2_def c1_def)
  have "chats (put_chat cid c3 d) cid = Some c3"
    by simp
  from settle_row[OF this, of now]
  obtain r1 where r1: "chats d1 cid = Some r1" "status r1 = completed"
    using st by (auto simp: d1_def Chat_save_def)
  from settle_row[OF r1(1), of now]
  obtain r2 where r2: "chats (snd (calculate_and_deduct_chat_billing now cid d1)) cid = Some r2"
    "status r2 = completed"
    using r1(2) by auto
  have "\<exists>c'. chats d2 cid = Some c' \<and> status c' = completed"
    using r1 r2 by (simp add: d2_def)
  then show "\<exists>c'. chats (snd (end_chat_without_session now cid d)) cid = Some c'
               \<and> status c' = completed"
    by (simp add: run)
  show "\<exists>e b. fst (end_chat_without_session now cid d) = Ended e b"
    by (simp add: run)
qed

lemma end_session_already:
  assumes "session_status s = ''completed''" and "actual_end_time s = Some t"
  shows "end_upcoming_session now s pair_chat d = (Already_ended t, s, d)"
  using assms by (simp add: end_upcoming_session_def)

lemma end_session_first:
  assumes "\<not> (session_status s = ''completed'' \<and> actual_end_time s \<noteq> None)"
  shows "\<exists>b. fst (end_upcoming_session now s pair_chat d) = Ended (Some now) b"
    and "session_status (fst (snd (end_upcoming_session now s pair_chat d))) = ''completed''"
    and "actual_end_time (fst (snd (end_upcoming_session now s pair_chat d))) = Some now"
  using assms
  by (auto simp: end_upcoming_session_def Let_def case_prod_beta)

text \<open>
  Claim C3, as amended. A second call of \<open>post\<close> on a session that has ended changes
  nothing, so there is no second debit, and its answer depends on what the call resolves
  to. For a chat without a scheduled appointment whose status is \<open>completed\<close> or
  \<open>cancelled\<close> the call is refused with HTTP 400 and the database is unchanged; this is
  also what the second call gets after a first call has ended an active or inactive
  chat. For a scheduled appointment that is completed and has its \<open>actual_end_time\<close> the
  call answers \<open>already_ended\<close> with that end time, and appointment and database are
  unchanged; after a first call that ended the appointment at \<open>now\<close>, the second call
  answers \<open>already_ended\<close> with the same end time \<open>now\<close> (the answer carries no billing
  result).
\<close>

theorem C3_second_end_session:
  "(\<forall>c. chats d cid = Some c \<and> status c \<in> {completed, cancelled} \<longrightarrow>
        SessionEndView_post now None (Some cid) pair_chat d = (Http_error 400, None, d))
   \<and> (\<forall>t. session_status s = ''completed'' \<and> actual_end_time s = Some t \<longrightarrow>
        SessionEndView_post now (Some s) chat pair_chat d = (Already_ended t, Some s, d))
   \<and> (\<forall>c. chats d cid = Some c \<and> counsellor c \<noteq> None \<and> status c \<in> {active, inactive} \<longrightarrow>
        (\<exists>e b d1. SessionEndView_post now None (Some cid) pair_chat d = (Ended e b, None, d1)
           \<and> SessionEndView_post later None (Some cid) pair_chat' d1
               = (Http_error 400, None, d1)))
   \<and> (\<not> (session_status s = ''completed'' \<and> actual_end_time s \<noteq> None) \<longrightarrow>
        (\<exists>b s1 d1. SessionEndView_post now (Some s) chat pair_chat d
                      = (Ended (Some now) b, Some s1, d1)
           \<and> SessionEndView_post later (Some s1) chat' pair_chat' d1
               = (Already_ended now, Some s1, d1)))"
proof (intro conjI allI impI)
  fix c assume "chats d cid = Some c \<and> status c \<in> {completed, cancelled}"
  then show "SessionEndView_post now None (Some cid) pair_chat d = (Http_error 400, None, d)"
    by (simp add: SessionEndView_post_def end_chat_terminal[where c = c])
next
  fix t assume "session_status s = ''completed'' \<and> actual_end_time s = Some t"
  then show "SessionEndView_post now (Some s) chat pair_chat d = (Already_ended t, Some s, d)"
    by (simp add: SessionEndView_post_def end_session_already)
next
  fix c
  assume a: "chats d cid = Some c \<and> counsellor c \<noteq> None \<and> status c \<in> {active, inactive}"
  obtain r d1 where first: "end_chat_without_session now cid d = (r, d1)"
    by (cases "end_chat_without_session now cid d")
  from a have "\<exists>e b. fst (end_chat_without_session now cid d) = Ended e b"
    by (intro end_chat_first(1)[where c = c]) simp_all
  then obtain e b where r: "r = Ended e b"
    using first by auto
  from a have "\<exists>c'. chats (snd (end_chat_without_session now cid d)) cid = Some c'
                 \<and> status c' = completed"
    by (intro end_chat_first(2)[where c = c]) simp_all
  then obtain c' where c': "chats d1 cid = Some c'" "status c' = completed"
    using first by auto
  have second: "end_chat_without_session later cid d1 = (Http_error 400, d1)"
    using c' by (intro end_chat_terminal[where c = c']) simp_all
  show "\<exists>e b d1. SessionEndView_post now None (Some cid) pair_chat d = (Ended e b, None, d1)
           \<and> SessionEndView_post later None (Some cid) pair_chat' d1
               = (Http_error 400, None, d1)"
    by (simp add: SessionEndView_post_def first r second)
next
  assume a: "\<not> (session_status s = ''completed'' \<and> actual_end_time s \<noteq> None)"
  obtain r s1 d1 where first: "end_upcoming_session now s pair_chat d = (r, s1, d1)"
    by (cases "end_upcoming_session now s pair_chat d")
  from end_session_first[OF a, of now pair_chat d] first
  obtain b where r: "r = Ended (Some now) b"
    and s1: "session_status s1 = ''completed''" "actual_end_time s1 = Some now"
    by auto
  have second: "end_upcoming_session later s1 pair_chat' d1 = (Already_ended now, s1, d1)"
    using s1 by (rule end_session_already)
  show "\<exists>b s1 d1. SessionEndView_post now (Some s) chat pair_chat d
                      = (Ended (Some now) b, Some s1, d1)
           \<and> SessionEndView_post later (Some s1) chat' pair_chat' d1
               = (Already_ended now, Some s1, d1)"
    by (simp add: SessionEndView_post_def first r second)
qed

lemma ended_chat_owes: "calculate_chat_duration_minutes (minutes 3) ended_chat = 3"
  "calculate_chat_billing (minutes 3) ended_chat = 3"
  by (simp_all add: calculate_chat_billing_def calculate_chat_duration_minutes_def
        CHAT_RATE_PER_MINUTE_def ended_chat_def example_chat_def minutes_def ceil_minutes_def)

lemma ended_chat_fields:
  "user ended_chat = Some 7" "is_billed ended_chat = False" "started_at ended_chat = Some 0"
  "ended_at ended_chat = Some (minutes 3)" "status ended_chat = completed"
  by (simp_all add: ended_chat_def example_chat_def)

lemma example_db_chats: "chats (example_db c w) 1 = Some c"
  by (simp add: example_db_def)

lemma example_db_put: "put_chat 1 c' (example_db c w) = example_db c' w"
  by (simp add: put_chat_def example_db_def)

lemma example_db_update: "update_chat 1 f (example_db c w) = example_db (f c) w"
  by (simp add: update_chat_def put_chat_def example_db_def)

lemma settle_ended_chat:
  "calculate_and_deduct_chat_billing (minutes 3) 1 (example_db ended_chat 10)
     = (True, example_db billed_chat 7)"
proof -
  have nb: "\<not> is_billed ended_chat" and s: "started_at ended_chat = Some 0"
    by (simp_all add: ended_chat_fields)
  have e: "ended_chat\<lparr>ended_at := Some (chat_end_time (minutes 3) ended_chat)\<rparr> = ended_chat"
    by (simp add: chat_end_time_def ended_chat_fields)
  have ded: "deduct_chat_billing ended_chat 3 (example_db ended_chat 10)
               = (True, example_db ended_chat 7)"
    by (simp add: deduct_chat_billing_def ended_chat_fields example_db_def)
  have upd: "update_chat 1
               (\<lambda>row. row\<lparr>duration_minutes := 3, billed_amount := 3, is_billed := True,
                             billing_processed_at := Some (minutes 3)\<rparr>)
               (example_db ended_chat 7) = example_db billed_chat 7"
    by (simp add: example_db_update billed_chat_def del: One_nat_def)
  show ?thesis
    by (simp only: settle_unbilled_started[OF example_db_chats nb s] e example_db_put
          ended_chat_owes Let_def)
       (simp add: ded upd del: One_nat_def)
qed

lemma first_end_call:
  "end_chat_without_session (minutes 3) 1 (example_db example_chat 10)
     = (Ended (Some (minutes 3)) (Some (3, 3)), example_db billed_chat 7)"
proof -
  have f: "counsellor example_chat = Some 9" "status example_chat = active"
    "ended_at example_chat = None" "started_at example_chat = Some 0"
    by (simp_all add: example_chat_def)
  have e: "example_chat\<lparr>status := completed, ended_at := Some (minutes 3)\<rparr> = ended_chat"
    by (simp add: ended_chat_def)
  have save: "Chat_save (minutes 3) 1 None ended_chat (example_db example_chat 10)
                = example_db billed_chat 7"
    by (simp add: Chat_save_def example_db_put ended_chat_fields settle_ended_chat
          del: One_nat_def)
  have b: "is_billed billed_chat" "billed_amount billed_chat = 3"
    "duration_minutes billed_chat = 3" "ended_at billed_chat = Some (minutes 3)"
    by (simp_all add: billed_chat_def ended_chat_def)
  show ?thesis
    unfolding end_chat_without_session_def
    by (simp add: example_db_chats f e ended_chat_fields save b billing_info_of_def Let_def
          del: One_nat_def)
qed

text \<open>
  Claim C3 as stated fails: the example chat has no scheduled appointment; the first call
  at minute 3 ends it and bills 3 for 3 minutes, and the second call at minute 4 is
  answered with the error status 400 instead of the already-ended outcome.
\<close>

theorem C3_second_call_refused_counterexample:
  "fst (SessionEndView_post (minutes 3) None (Some 1) None (example_db example_chat 10))
     = Ended (Some (minutes 3)) (Some (3, 3))
   \<and> snd (snd (SessionEndView_post (minutes 3) None (Some 1) None
        (example_db example_chat 10))) = example_db billed_chat 7
   \<and> fst (SessionEndView_post (minutes 4) None (Some 1) None (example_db billed_chat 7))
     = Http_error 400"
proof -
  have row: "chats (example_db billed_chat 7) 1 = Some billed_chat"
    by (rule example_db_chats)
  have st: "status billed_chat \<in> {completed, cancelled}"
    by (simp add: billed_chat_def ended_chat_def)
  have second: "end_chat_without_session (minutes 4) 1 (example_db billed_chat 7)
                  = (Http_error 400, example_db billed_chat 7)"
    using row st by (rule end_chat_terminal)
  show ?thesis
    by (simp add: SessionEndView_post_def first_end_call second del: One_nat_def)
qed


text \<open>
  Claim C3, instances: the second call on the billed example chat, the second call on the
  ended appointment, and both round trips from the running example chat and the
  appointment in progress.
\<close>

theorem C3_second_end_session_witness:
  "SessionEndView_post (minutes 4) None (Some 1) None (example_db billed_chat 7)
     = (Http_error 400, None, example_db billed_chat 7)
   \<and> SessionEndView_post (minutes 4) (Some ended_session) None (Some 1)
       (example_db billed_chat 7)
     = (Already_ended (minutes 3), Some ended_session, example_db billed_chat 7)
   \<and> (\<exists>e b d1. SessionEndView_post (minutes 3) None (Some 1) None (example_db example_chat 10)
                   = (Ended e b, None, d1)
          \<and> SessionEndView_post (minutes 4) None (Some 1) None d1 = (Http_error 400, None, d1))
   \<and> (\<exists>b s1 d1. SessionEndView_post (minutes 3) (Some example_session) None (Some 1)
                     (example_db example_chat 10)
                   = (Ended (Some (minutes 3)) b, Some s1, d1)
          \<and> SessionEndView_post (minutes 4) (Some s1) None (Some 1) d1
              = (Already_ended (minutes 3), Some s1, d1))"
proof -
  note a = C3_second_end_session[where d = "example_db billed_chat 7" and cid = 1
      and now = "minutes 4" and s = ended_session and chat = None and pair_chat = None]
  note b = C3_second_end_session[where d = "example_db billed_chat 7" and cid = 1
      and now = "minutes 4" and s = ended_session and chat = None and pair_chat = "Some 1"]
  note c = C3_second_end_session[where d = "example_db example_chat 10" and cid = 1
      and now = "minutes 3" and later = "minutes 4" and s = example_session
      and chat = None and chat' = None and pair_chat = None and pair_chat' = None]
  note e = C3_second_end_session[where d = "example_db example_chat 10" and cid = 1
      and now = "minutes 3" and later = "minutes 4" and s = example_session
      and chat = None and chat' = None and pair_chat = "Some 1" and pair_chat' = "Some 1"]
  have 1: "SessionEndView_post (minutes 4) None (Some 1) None (example_db billed_chat 7)
     = (Http_error 400, None, example_db billed_chat 7)"
    using a by (simp add: example_db_chats billed_chat_def ended_chat_def del: One_nat_def)
  have 2: "SessionEndView_post (minutes 4) (Some ended_session) None (Some 1)
       (example_db billed_chat 7)
     = (Already_ended (minutes 3), Some ended_session, example_db billed_chat 7)"
    using b by (simp add: ended_session_def del: One_nat_def)
  have 3: "\<exists>e b d1. SessionEndView_post (minutes 3) None (Some 1) None (example_db example_chat 10)
                   = (Ended e b, None, d1)
          \<and> SessionEndView_post (minutes 4) None (Some 1) None d1 = (Http_error 400, None, d1)"
    using c by (simp add: example_db_chats example_chat_def del: One_nat_def)
  have 4: "\<exists>b s1 d1. SessionEndView_post (minutes 3) (Some example_session) None (Some 1)
                     (example_db example_chat 10)
                   = (Ended (Some (minutes 3)) b, Some s1, d1)
          \<and> SessionEndView_post (minutes 4) (Some s1) None (Some 1) d1
              = (Already_ended (minutes 3), Some s1, d1)"
    using e by (simp add: example_session_def del: One_nat_def)
  from 1 2 3 4 show ?thesis by blast
qed

end
